theory Spec2Isabelle
  imports Complex_Main "HOL-Library.Multiset"
begin

unbundle bit_operations_syntax

section \<open>Rasters and the image algebra the scripts call\<close>

text \<open>
  The SWIFT scripts are Earth Engine programs: every function of the repository is a
  composition of image and collection operators of the hosting platform. A band of an
  image is modelled as a partial map from pixel positions to values; a pixel without a
  value is a masked ("no data") pixel. Arithmetic is over the reals: the rounding of the
  platform's 32-bit floats (\<open>toFloat\<close>) is not part of the model.

  The operators below follow the behaviour of the platform:
  \<^item> a binary operator yields a value only where both operands have one;
  \<^item> \<open>lt\<close> and \<open>gt\<close> yield 1 where the comparison holds and 0 elsewhere;
  \<^item> \<open>updateMask\<close> takes a mask in which 0 means invalid: it keeps a pixel where the
    mask has a non-zero value and masks it elsewhere (also where the mask itself has no
    value);
  \<^item> \<open>clip\<close> masks the pixels outside the region;
  \<^item> \<open>normalizedDifference\<close> computes \<open>(a - b) / (a + b)\<close>; the output pixel is masked
    when the denominator is zero and, as the reference of the operator notes, when either
    input is negative (the script would have to use \<open>expression\<close> to keep such pixels).
  A region is the list of the pixels it covers at the scale of the operation.
\<close>

type_synonym pixel = nat
type_synonym raster = "pixel \<Rightarrow> real option"
type_synonym geometry = "pixel list"

datatype error = BandNotFound string | TooManyPixels | EmptyCollection

definition lift2 :: "(real \<Rightarrow> real \<Rightarrow> real) \<Rightarrow> raster \<Rightarrow> raster \<Rightarrow> raster" where
  "lift2 f a b = (\<lambda>p. case a p of None \<Rightarrow> None
                        | Some x \<Rightarrow> (case b p of None \<Rightarrow> None | Some y \<Rightarrow> Some (f x y)))"

definition constant_img :: "real \<Rightarrow> raster" where
  "constant_img c = (\<lambda>p. Some c)"

definition multiply :: "raster \<Rightarrow> raster \<Rightarrow> raster" where
  "multiply a b = lift2 (\<lambda>x y. x * y) a b"

definition add :: "raster \<Rightarrow> raster \<Rightarrow> raster" where
  "add a b = lift2 (\<lambda>x y. x + y) a b"

definition divide_const :: "raster \<Rightarrow> real \<Rightarrow> raster" where
  "divide_const a c = (\<lambda>p. map_option (\<lambda>x. x / c) (a p))"

definition multiply_const :: "raster \<Rightarrow> real \<Rightarrow> raster" where
  "multiply_const a c = (\<lambda>p. map_option (\<lambda>x. x * c) (a p))"

definition pow2 :: "raster \<Rightarrow> raster" where
  "pow2 a = (\<lambda>p. map_option (\<lambda>x. x ^ 2) (a p))"

definition sqrt_img :: "raster \<Rightarrow> raster" where
  "sqrt_img a = (\<lambda>p. map_option sqrt (a p))"

definition lt :: "raster \<Rightarrow> real \<Rightarrow> raster" where
  "lt a c = (\<lambda>p. map_option (\<lambda>x. if x < c then 1 else 0) (a p))"

definition gt :: "raster \<Rightarrow> real \<Rightarrow> raster" where
  "gt a c = (\<lambda>p. map_option (\<lambda>x. if x > c then 1 else 0) (a p))"

definition updateMask :: "raster \<Rightarrow> raster \<Rightarrow> raster" where
  "updateMask im msk =
     (\<lambda>p. case msk p of None \<Rightarrow> None
          | Some m \<Rightarrow> if m = 0 then None else im p)"

definition clip :: "raster \<Rightarrow> geometry \<Rightarrow> raster" where
  "clip im region = (\<lambda>p. if p \<in> set region then im p else None)"

definition normalizedDifference :: "raster \<Rightarrow> raster \<Rightarrow> raster" where
  "normalizedDifference a b =
     (\<lambda>p. case a p of None \<Rightarrow> None
          | Some x \<Rightarrow> (case b p of None \<Rightarrow> None
             | Some y \<Rightarrow> if x < 0 \<or> y < 0 \<or> x + y = 0 then None
                        else Some ((x - y) / (x + y))))"

text \<open>
  \<open>toFloat\<close> casts a band to 32-bit floating point. It is modelled on the reals as
  rounding to the nearest number with a 24-bit significand, ties to the even significand.
  The exponent range of the format (overflow, subnormal numbers) is not modelled, and
  the arithmetic inside an operator is exact, where the platform computes in 64-bit
  floating point.
\<close>

definition round_half_even :: "real \<Rightarrow> int" where
  "round_half_even x =
     (let f = \<lfloor>x\<rfloor>; r = x - of_int f
      in if r < 1 / 2 then f
         else if 1 / 2 < r then f + 1
         else if even f then f else f + 1)"

definition toFloat :: "real \<Rightarrow> real" where
  "toFloat x =
     (if x = 0 then 0
      else (let ulp = 2 powr (of_int (\<lfloor>log 2 \<bar>x\<bar>\<rfloor> - 23))
            in of_int (round_half_even (x / ulp)) * ulp))"

definition toFloat_img :: "raster \<Rightarrow> raster" where
  "toFloat_img a = (\<lambda>p. map_option toFloat (a p))"

section \<open>Optical imagery\<close>

text \<open>
  Properties every image carries: the acquisition time \<open>system:time_start\<close>
  (milliseconds since 1970-01-01 UTC) and the footprint used by \<open>filterBounds\<close>.
\<close>

record image_props =
  time_start :: int
  footprint :: geometry

text \<open>
  An optical image after \<open>select([...], ['blue','green','red','NIR','SWIR1','SWIR2'])\<close>.
\<close>

record optical_image = image_props +
  blue :: raster
  green :: raster
  red :: raster
  NIR :: raster
  SWIR1 :: raster
  SWIR2 :: raster

text \<open>A Landsat 8 surface-reflectance scene as the catalogue delivers it.\<close>

record L8_image = image_props +
  SR_B2 :: raster
  SR_B3 :: raster
  SR_B4 :: raster
  SR_B5 :: raster
  SR_B6 :: raster
  SR_B7 :: raster
  QA_PIXEL :: "pixel \<Rightarrow> int option"
  CLOUD_COVER :: real

text \<open>A Sentinel-2 scene as the catalogue delivers it.\<close>

record S2_image = image_props +
  B2 :: raster
  B3 :: raster
  B4 :: raster
  B8 :: raster
  B11 :: raster
  B12 :: raster
  QA60 :: raster
  CLOUD_COVERAGE_ASSESSMENT :: real

text \<open>
  \<open>L8QAMask\<close>: bits 3 and 5 of \<open>QA_PIXEL\<close> are cloud shadow and cloud; a pixel is kept
  when both are zero, the reflectance bands are divided by 10000, and only
  \<open>system:time_start\<close> is copied from the scene. The following
  \<open>select(['SR_B2', ...], ['blue', ...])\<close> of the script is folded into the result type.
\<close>

definition cloudShadowBitMask :: int where
  "cloudShadowBitMask = push_bit 3 1"

definition cloudsBitMask :: int where
  "cloudsBitMask = push_bit 5 1"

definition L8_qa_mask :: "(pixel \<Rightarrow> int option) \<Rightarrow> raster" where
  "L8_qa_mask qa =
     (\<lambda>p. map_option
        (\<lambda>q. if (q AND cloudShadowBitMask = 0) \<and> (q AND cloudsBitMask = 0) then 1 else 0)
        (qa p))"

definition L8QAMask :: "L8_image \<Rightarrow> optical_image" where
  "L8QAMask img =
     (let qmask = L8_qa_mask (QA_PIXEL img);
          scaled = (\<lambda>b. divide_const (updateMask b qmask) 10000)
      in \<lparr> time_start = time_start img, footprint = footprint img,
           blue = scaled (SR_B2 img), green = scaled (SR_B3 img),
           red = scaled (SR_B4 img), NIR = scaled (SR_B5 img),
           SWIR1 = scaled (SR_B6 img), SWIR2 = scaled (SR_B7 img) \<rparr>)"

text \<open>
  \<open>S2QAMask\<close> keeps the pixels whose \<open>QA60\<close> value is below 1; the bands are then
  selected and renamed.
\<close>

definition S2QAMask :: "S2_image \<Rightarrow> optical_image" where
  "S2QAMask img =
     (let qmask = lt (QA60 img) 1
      in \<lparr> time_start = time_start img, footprint = footprint img,
           blue = updateMask (B2 img) qmask, green = updateMask (B3 img) qmask,
           red = updateMask (B4 img) qmask, NIR = updateMask (B8 img) qmask,
           SWIR1 = updateMask (B11 img) qmask, SWIR2 = updateMask (B12 img) qmask \<rparr>)"

subsection \<open>Harmonization\<close>

text \<open>
  \<open>GAIN\<close> and \<open>BIAS\<close> are constant six-band images; \<open>multiply\<close> and \<open>add\<close> pair the
  bands by position (blue, green, red, NIR, SWIR1, SWIR2).
\<close>

definition GAIN :: "real list" where
  "GAIN = [0.9778, 1.0053, 0.9765, 0.9983, 0.9987, 1.003]"

definition BIAS :: "real list" where
  "BIAS = [-0.00411, -0.00093, 0.00094, -0.0001, -0.0015, -0.0012]"

definition harmonize :: "optical_image \<Rightarrow> optical_image" where
  "harmonize S2im =
     (let landsatLike = (\<lambda>b i. add (multiply b (constant_img (GAIN ! i))) (constant_img (BIAS ! i)))
      in \<lparr> time_start = time_start S2im, footprint = footprint S2im,
           blue = landsatLike (blue S2im) 0, green = landsatLike (green S2im) 1,
           red = landsatLike (red S2im) 2, NIR = landsatLike (NIR S2im) 3,
           SWIR1 = landsatLike (SWIR1 S2im) 4, SWIR2 = landsatLike (SWIR2 S2im) 5 \<rparr>)"

text \<open>
  The inverse transform is not in the scripts; it is written from the specification's
  round-trip law, \<open>(y - bias) / gain\<close> per band.
\<close>

definition spec_unharmonize :: "optical_image \<Rightarrow> optical_image" where
  "spec_unharmonize im =
     (let back = (\<lambda>b i. (\<lambda>p. map_option (\<lambda>y. (y - BIAS ! i) / (GAIN ! i)) (b p)))
      in \<lparr> time_start = time_start im, footprint = footprint im,
           blue = back (blue im) 0, green = back (green im) 1,
           red = back (red im) 2, NIR = back (NIR im) 3,
           SWIR1 = back (SWIR1 im) 4, SWIR2 = back (SWIR2 im) 5 \<rparr>)"

subsection \<open>Water indices\<close>

record index_image = image_props +
  MNDWI :: raster
  AWEIsh :: raster
  TCW :: raster
  NDVI :: raster

text \<open>
  \<open>im.expression("b+2.5*g-1.5*(n+s)-0.25*w", ...).rename('AWEIsh').toFloat()\<close> and the
  tasselled-cap expression, whose six inputs are cast with \<open>toFloat\<close> before the
  expression and whose result is cast again: a pixel has a value where every band the
  expression reads has one.
\<close>

definition AWEIsh_expression :: "optical_image \<Rightarrow> raster" where
  "AWEIsh_expression im =
     toFloat_img
       (\<lambda>p. case (blue im p, green im p, NIR im p, SWIR1 im p, SWIR2 im p) of
              (Some b, Some g, Some n, Some s, Some w) \<Rightarrow>
                 Some (b + 2.5 * g - 1.5 * (n + s) - 0.25 * w)
            | _ \<Rightarrow> None)"

definition TCW_expression :: "optical_image \<Rightarrow> raster" where
  "TCW_expression im =
     toFloat_img
       (\<lambda>p. case (toFloat_img (blue im) p, toFloat_img (green im) p, toFloat_img (red im) p,
                  toFloat_img (NIR im) p, toFloat_img (SWIR1 im) p, toFloat_img (SWIR2 im) p) of
              (Some b, Some g, Some r, Some n, Some s1, Some s2) \<Rightarrow>
                 Some (0.1511 * b + 0.1973 * g + 0.3283 * r + 0.3407 * n
                       + -0.7117 * s1 + -0.4559 * s2)
            | _ \<Rightarrow> None)"

definition waterMapping :: "optical_image \<Rightarrow> index_image" where
  "waterMapping im =
     \<lparr> time_start = time_start im, footprint = footprint im,
       MNDWI = toFloat_img (normalizedDifference (green im) (SWIR1 im)),
       AWEIsh = AWEIsh_expression im,
       TCW = TCW_expression im,
       NDVI = toFloat_img (normalizedDifference (NIR im) (red im)) \<rparr>"

section \<open>Dates\<close>

text \<open>
  A date is its number of milliseconds since 1970-01-01T00:00 UTC, as \<open>ee.Date.millis\<close>
  gives it. The calendar fields are those of the proleptic Gregorian calendar in UTC.
\<close>

type_synonym ymd = "int \<times> int \<times> int"

definition millis_per_day :: int where
  "millis_per_day = 86400000"

definition civil_from_days :: "int \<Rightarrow> ymd" where
  "civil_from_days days =
     (let z = days + 719468;
          era = z div 146097;
          doe = z mod 146097;
          yoe = (doe - doe div 1460 + doe div 36524 - doe div 146096) div 365;
          doy = doe - (365 * yoe + yoe div 4 - yoe div 100);
          mp = (5 * doy + 2) div 153;
          d = doy - (153 * mp + 2) div 5 + 1;
          m = (if mp < 10 then mp + 3 else mp - 9);
          y = yoe + era * 400 + (if m \<le> 2 then 1 else 0)
      in (y, m, d))"

definition days_from_civil :: "ymd \<Rightarrow> int" where
  "days_from_civil c =
     (case c of (y, m, d) \<Rightarrow>
        (let y1 = (if m \<le> 2 then y - 1 else y);
             era = y1 div 400;
             yoe = y1 mod 400;
             doy = (153 * (if m > 2 then m - 3 else m + 9) + 2) div 5 + d - 1;
             doe = yoe * 365 + yoe div 4 - yoe div 100 + doy
         in era * 146097 + doe - 719468))"

definition ee_Date :: "ymd \<Rightarrow> int" where
  "ee_Date c = days_from_civil c * millis_per_day"

definition format_YMD :: "int \<Rightarrow> ymd" where
  "format_YMD t = civil_from_days (t div millis_per_day)"

definition month_of :: "int \<Rightarrow> int" where
  "month_of t = (case format_YMD t of (y, m, d) \<Rightarrow> m)"

definition advance_week :: "int \<Rightarrow> int \<Rightarrow> int" where
  "advance_week n t = t + n * 7 * millis_per_day"

definition days_in_month :: "int \<Rightarrow> int \<Rightarrow> int" where
  "days_in_month y m =
     (if m = 2 then (if y mod 4 = 0 \<and> (y mod 100 \<noteq> 0 \<or> y mod 400 = 0) then 29 else 28)
      else if m = 4 \<or> m = 6 \<or> m = 9 \<or> m = 11 then 30 else 31)"

definition advance_month :: "int \<Rightarrow> int" where
  "advance_month t =
     (case format_YMD t of (y, m, d) \<Rightarrow>
        (let y1 = (if m = 12 then y + 1 else y);
             m1 = (if m = 12 then 1 else m + 1);
             d1 = min d (days_in_month y1 m1)
         in days_from_civil (y1, m1, d1) * millis_per_day + t mod millis_per_day))"

text \<open>\<open>ee.List.sequence(start, end, step)\<close>: from \<open>start\<close> to \<open>end\<close> inclusive.\<close>

definition sequence :: "int \<Rightarrow> int \<Rightarrow> int \<Rightarrow> int list" where
  "sequence start stop step =
     (if 0 < step \<and> start \<le> stop
      then map (\<lambda>k. start + int k * step) [0 ..< nat ((stop - start) div step) + 1]
      else [])"

section \<open>Collections\<close>

text \<open>
  A collection is the list of its images. \<open>filterBounds\<close> keeps the images whose
  footprint meets the geometry, \<open>filterDate\<close> those acquired in \<open>[start, end)\<close>,
  \<open>calendarRange(lo, hi, 'month')\<close> those whose calendar month lies in \<open>lo..hi\<close>, both
  ends included.
\<close>

definition filterBounds :: "geometry \<Rightarrow> ('a image_props_scheme) list \<Rightarrow> ('a image_props_scheme) list" where
  "filterBounds g xs = filter (\<lambda>im. \<exists>p \<in> set (footprint im). p \<in> set g) xs"

definition filterDate :: "int \<Rightarrow> int \<Rightarrow> ('a image_props_scheme) list \<Rightarrow> ('a image_props_scheme) list" where
  "filterDate start stop xs = filter (\<lambda>im. start \<le> time_start im \<and> time_start im < stop) xs"

definition calendarRange_month :: "int \<Rightarrow> int \<Rightarrow> ('a image_props_scheme) list \<Rightarrow> ('a image_props_scheme) list" where
  "calendarRange_month lo hi xs =
     filter (\<lambda>im. lo \<le> month_of (time_start im) \<and> month_of (time_start im) \<le> hi) xs"

text \<open>
  Mapping a function that can fail over a collection: the first failure is the failure
  of the whole collection.
\<close>

fun map_result :: "('a \<Rightarrow> error + 'b) \<Rightarrow> 'a list \<Rightarrow> error + 'b list" where
  "map_result f [] = Inr []"
| "map_result f (x # xs) =
     (case f x of Inl e \<Rightarrow> Inl e
      | Inr y \<Rightarrow> (case map_result f xs of Inl e \<Rightarrow> Inl e | Inr ys \<Rightarrow> Inr (y # ys)))"

text \<open>The values a list of bands has at one pixel, masked pixels left out.\<close>

definition pixel_values :: "raster list \<Rightarrow> pixel \<Rightarrow> real list" where
  "pixel_values rs p = List.map_filter (\<lambda>r. r p) rs"

text \<open>
  \<open>mosaic()\<close>: the last image of the collection that has a value at the pixel is on top.
\<close>

definition mosaic_band :: "raster list \<Rightarrow> raster" where
  "mosaic_band rs = (\<lambda>p. case rev (pixel_values rs p) of [] \<Rightarrow> None | v # _ \<Rightarrow> Some v)"

text \<open>\<open>max()\<close> over a collection, per pixel, over the images that have a value there.\<close>

definition max_band :: "raster list \<Rightarrow> raster" where
  "max_band rs = (\<lambda>p. case pixel_values rs p of [] \<Rightarrow> None | v # vs \<Rightarrow> Some (fold max vs v))"

text \<open>
  \<open>median()\<close> over a collection, per pixel, over the images that have a value there:
  the platform's median reducer gives the middle value of the sorted values, and the mean
  of the two middle values when their number is even.
\<close>

definition median :: "real list \<Rightarrow> real option" where
  "median xs =
     (let s = sort xs; n = length s
      in if n = 0 then None
         else if odd n then Some (s ! (n div 2))
         else Some ((s ! (n div 2 - 1) + s ! (n div 2)) / 2))"

definition median_band :: "raster list \<Rightarrow> raster" where
  "median_band rs = (\<lambda>p. median (pixel_values rs p))"

section \<open>Classifiers\<close>

text \<open>
  A labelled point is a pixel position and the value of its \<open>water\<close> property. A sample
  is what \<open>sampleRegions(...).randomColumn()\<close> yields for a point: the band values under
  the point, the \<open>water\<close> property and the \<open>random\<close> column.
\<close>

type_synonym labelled_point = "pixel \<times> real"

record sample =
  predictors :: "real list"
  water_label :: real
  random_col :: real

text \<open>
  \<open>ee.Classifier.smileRandomForest(n)\<close> is the description of a forest of \<open>n\<close> trees;
  \<open>train\<close> fits it. The fitting itself is the platform's: it is the parameter \<open>fit\<close>,
  which yields for a vector of predictors whether the forest votes "water" (class 1).
\<close>

datatype classifier_setup = SmileRandomForest nat

record classifier =
  numberOfTrees :: nat
  classProperty :: string
  inputProperties :: "string list"
  votes_water :: "real list \<Rightarrow> bool"

type_synonym forest_fit = "nat \<Rightarrow> sample list \<Rightarrow> real list \<Rightarrow> bool"

definition smileRandomForest :: "nat \<Rightarrow> classifier_setup" where
  "smileRandomForest n = SmileRandomForest n"

definition train :: "forest_fit \<Rightarrow> classifier_setup \<Rightarrow> sample list \<Rightarrow> string \<Rightarrow> string list \<Rightarrow> classifier" where
  "train fit setup features cp ip =
     (case setup of SmileRandomForest n \<Rightarrow>
        \<lparr> numberOfTrees = n, classProperty = cp, inputProperties = ip,
          votes_water = fit n features \<rparr>)"

record classified_image = image_props +
  classification :: raster

definition classify_optical :: "classifier \<Rightarrow> index_image \<Rightarrow> classified_image" where
  "classify_optical c im =
     \<lparr> time_start = time_start im, footprint = footprint im,
       classification =
         (\<lambda>p. case (MNDWI im p, AWEIsh im p, TCW im p, NDVI im p) of
                (Some a, Some b, Some t, Some v) \<Rightarrow>
                   Some (if votes_water c [a, b, t, v] then 1 else 0)
              | _ \<Rightarrow> None) \<rparr>"

record radar_image = image_props +
  VV :: raster
  VH :: raster
  angle :: raster

definition classify_radar :: "classifier \<Rightarrow> radar_image \<Rightarrow> classified_image" where
  "classify_radar c im =
     \<lparr> time_start = time_start im, footprint = footprint im,
       classification =
         (\<lambda>p. case (VV im p, VH im p, angle im p) of
                (Some a, Some b, Some t) \<Rightarrow> Some (if votes_water c [a, b, t] then 1 else 0)
              | _ \<Rightarrow> None) \<rparr>"

text \<open>
  A mosaic has no acquisition time: its \<open>time_start\<close> is 0 here and is never read.
  The mosaic of an empty collection is an image without bands, \<open>None\<close> here.
\<close>

definition mosaic_index :: "index_image list \<Rightarrow> index_image option" where
  "mosaic_index xs =
     (if xs = [] then None
      else Some \<lparr> time_start = 0, footprint = concat (map footprint xs),
                  MNDWI = mosaic_band (map MNDWI xs), AWEIsh = mosaic_band (map AWEIsh xs),
                  TCW = mosaic_band (map TCW xs), NDVI = mosaic_band (map NDVI xs) \<rparr>)"

definition mosaic_radar :: "radar_image list \<Rightarrow> radar_image" where
  "mosaic_radar xs =
     \<lparr> time_start = 0, footprint = concat (map footprint xs),
       VV = mosaic_band (map VV xs), VH = mosaic_band (map VH xs),
       angle = mosaic_band (map angle xs) \<rparr>"

text \<open>
  \<open>sampleRegions\<close> reads the bands under each point and drops the points where a band
  has no value; \<open>randomColumn\<close> then numbers the samples with the platform's
  pseudo-random sequence \<open>rnd\<close>.
\<close>

definition sample_bands :: "raster list \<Rightarrow> labelled_point list \<Rightarrow> (real list \<times> real) list" where
  "sample_bands bands pts =
     List.map_filter
       (\<lambda>(p, w). if \<forall>b \<in> set bands. b p \<noteq> None then Some (map (\<lambda>b. the (b p)) bands, w) else None)
       pts"

definition randomColumn :: "(nat \<Rightarrow> real) \<Rightarrow> (real list \<times> real) list \<Rightarrow> sample list" where
  "randomColumn rnd xs =
     map (\<lambda>(i, (f, w)). \<lparr> predictors = f, water_label = w, random_col = rnd i \<rparr>)
       (zip [0 ..< length xs] xs)"

section \<open>What the scripts read\<close>

text \<open>
  The catalogues and services of the platform, the imported tables, and the three values
  the user sets (\<open>AOI\<close>, \<open>start_date\<close>, \<open>end_date\<close>: the arguments of \<open>classifyWater\<close>,
  and the lines of \<open>constructTimeSeries\<close> its notes tell the user to edit).
  \<open>s1_preproc\<close> is the imported radar preprocessing (its second result, the preprocessed
  collection with bands VV, VH and angle); \<open>convolve_boxcar\<close> is the platform's convolution
  with the normalised square kernel of radius 5 pixels; \<open>forest_fit\<close> is the platform's
  random-forest training; \<open>random_seq\<close> is the sequence \<open>randomColumn\<close> draws from.
\<close>

record wind_image = image_props +
  u_component_of_wind_height_above_ground :: raster
  v_component_of_wind_height_above_ground :: raster

record s1_parameter =
  START_DATE :: int
  STOP_DATE :: int
  GEOMETRY :: geometry

record inputs =
  LANDSAT_LC08_C02_T1_L2 :: "L8_image list"
  COPERNICUS_S2 :: "S2_image list"
  COPERNICUS_S2_SR_HARMONIZED :: "S2_image list"
  NOAA_CFSV2_FOR6H :: "wind_image list"
  MERIT_Hydro_hnd :: raster
  pixelArea :: "pixel \<Rightarrow> real"
  s1_preproc :: "s1_parameter \<Rightarrow> radar_image list"
  convolve_boxcar :: "raster \<Rightarrow> raster"
  forest_fit :: forest_fit
  random_seq :: "nat \<Rightarrow> real"
  water :: "pixel list"
  nonWater :: "pixel list"
  allotments_USFS :: "geometry list"
  AZ :: geometry
  export_geometry :: geometry
  AOI :: geometry
  start_date :: int
  end_date :: int

section \<open>Training (constructTimeSeries and \<open>SWIFT_classify\<close>)\<close>

definition waterPoints :: "inputs \<Rightarrow> labelled_point list" where
  "waterPoints inp = map (\<lambda>p. (p, 1)) (water inp)"

definition dryPoints :: "inputs \<Rightarrow> labelled_point list" where
  "dryPoints inp = map (\<lambda>p. (p, 0)) (nonWater inp)"

definition points :: "inputs \<Rightarrow> labelled_point list" where
  "points inp = waterPoints inp @ dryPoints inp"

text \<open>
  The names of the predictors. constructTimeSeries names the tasselled-cap band \<open>TWC\<close>,
  \<open>SWIFT_classify\<close> names it \<open>TCW\<close>; it is the field \<open>TCW\<close> of an index image for both.
\<close>

definition optical_bands :: "string list" where
  "optical_bands = [''MNDWI'', ''AWEIsh'', ''TWC'', ''NDVI'']"

definition optical_bands_classify :: "string list" where
  "optical_bands_classify = [''MNDWI'', ''AWEIsh'', ''TCW'', ''NDVI'']"

definition S1_bands :: "string list" where
  "S1_bands = [''VV'', ''VH'', ''angle'']"

text \<open>
  The two scripts train in the same way and differ in the training window, which is the
  pair of dates \<open>t0\<close>, \<open>t1\<close> here, and in the name of one predictor.
\<close>

definition L8training :: "inputs \<Rightarrow> int \<Rightarrow> int \<Rightarrow> optical_image list" where
  "L8training inp t0 t1 =
     map L8QAMask
       (filter (\<lambda>im. CLOUD_COVER im < 10)
          (filterDate t0 t1 (filterBounds (water inp) (LANDSAT_LC08_C02_T1_L2 inp))))"

definition S2training :: "inputs \<Rightarrow> int \<Rightarrow> int \<Rightarrow> optical_image list" where
  "S2training inp t0 t1 =
     map harmonize
       (map S2QAMask
          (filter (\<lambda>im. CLOUD_COVERAGE_ASSESSMENT im < 10)
             (filterDate t0 t1 (filterBounds (water inp) (COPERNICUS_S2 inp)))))"

text \<open>
  \<open>L8S2training_ind_mosaic.select(optical_bands)\<close> names four bands; with no optical
  scene in the training window the mosaic has none of them and the selection fails.
\<close>

definition optical_training :: "inputs \<Rightarrow> string list \<Rightarrow> int \<Rightarrow> int \<Rightarrow> error + sample list" where
  "optical_training inp bands t0 t1 =
     (let L8S2training = L8training inp t0 t1 @ S2training inp t0 t1;
          L8S2training_ind = map waterMapping L8S2training
      in case mosaic_index L8S2training_ind of
           None \<Rightarrow> Inl (BandNotFound (hd bands))
         | Some L8S2training_ind_mosaic \<Rightarrow>
             Inr (randomColumn (random_seq inp)
                    (sample_bands
                       [MNDWI L8S2training_ind_mosaic, AWEIsh L8S2training_ind_mosaic,
                        TCW L8S2training_ind_mosaic, NDVI L8S2training_ind_mosaic]
                       (points inp))))"

definition train_optical :: "inputs \<Rightarrow> string list \<Rightarrow> int \<Rightarrow> int \<Rightarrow> error + classifier" where
  "train_optical inp bands t0 t1 =
     (case optical_training inp bands t0 t1 of Inl e \<Rightarrow> Inl e
      | Inr samples \<Rightarrow>
          Inr (train (forest_fit inp) (smileRandomForest 500) samples ''water'' bands))"

definition S1_training :: "inputs \<Rightarrow> int \<Rightarrow> int \<Rightarrow> sample list" where
  "S1_training inp t0 t1 =
     (let S1_preprocess =
            s1_preproc inp \<lparr> START_DATE = t0, STOP_DATE = t1, GEOMETRY = water inp \<rparr>;
          S1_mosaic = mosaic_radar S1_preprocess
      in randomColumn (random_seq inp)
           (sample_bands [VV S1_mosaic, VH S1_mosaic, angle S1_mosaic] (points inp)))"

definition train_radar :: "inputs \<Rightarrow> int \<Rightarrow> int \<Rightarrow> classifier" where
  "train_radar inp t0 t1 =
     train (forest_fit inp) (smileRandomForest 500) (S1_training inp t0 t1)
       ''water'' S1_bands"

text \<open>constructTimeSeries trains on 2018-01-25 to 2018-02-07.\<close>

definition optical_classifier :: "inputs \<Rightarrow> error + classifier" where
  "optical_classifier inp =
     train_optical inp optical_bands (ee_Date (2018, 1, 25)) (ee_Date (2018, 2, 7))"

definition S1_classifier :: "inputs \<Rightarrow> classifier" where
  "S1_classifier inp = train_radar inp (ee_Date (2018, 1, 25)) (ee_Date (2018, 2, 7))"

text \<open>
  \<open>SWIFT_classify\<close> trains the optical forest on 2018-01-27 to 2018-02-02 and the radar
  forest on 2018-01-27 to 2018-02-07.
\<close>

definition optical_classifier_classify :: "inputs \<Rightarrow> error + classifier" where
  "optical_classifier_classify inp =
     train_optical inp optical_bands_classify (ee_Date (2018, 1, 27)) (ee_Date (2018, 2, 2))"

definition S1_classifier_classify :: "inputs \<Rightarrow> classifier" where
  "S1_classifier_classify inp =
     train_radar inp (ee_Date (2018, 1, 27)) (ee_Date (2018, 2, 7))"

section \<open>Query collections and classification\<close>

definition L8 :: "inputs \<Rightarrow> optical_image list" where
  "L8 inp =
     map L8QAMask
       (filter (\<lambda>im. CLOUD_COVER im < 10)
          (calendarRange_month 3 11
             (filterDate (start_date inp) (end_date inp)
                (filterBounds (water inp) (LANDSAT_LC08_C02_T1_L2 inp)))))"

definition S2 :: "inputs \<Rightarrow> optical_image list" where
  "S2 inp =
     map harmonize
       (map S2QAMask
          (filter (\<lambda>im. CLOUD_COVERAGE_ASSESSMENT im < 10)
             (calendarRange_month 3 11
                (filterDate (start_date inp) (end_date inp)
                   (filterBounds (water inp) (COPERNICUS_S2 inp))))))"

definition L8S2 :: "inputs \<Rightarrow> optical_image list" where
  "L8S2 inp = L8 inp @ S2 inp"

definition L8S2_ind :: "inputs \<Rightarrow> index_image list" where
  "L8S2_ind inp = map waterMapping (L8S2 inp)"

text \<open>
  \<open>im.classify(optical_classifier)\<close> for each image of the collection. The platform
  evaluates the training when an image is classified: a failed training fails the
  classification of every image, and an empty collection is classified without it.
\<close>

definition classify_with :: "error + classifier \<Rightarrow> index_image \<Rightarrow> error + classified_image" where
  "classify_with trained im =
     (case trained of Inl e \<Rightarrow> Inl e | Inr c \<Rightarrow> Inr (classify_optical c im))"

definition L8S2_classified :: "inputs \<Rightarrow> error + classified_image list" where
  "L8S2_classified inp = map_result (classify_with (optical_classifier inp)) (L8S2_ind inp)"

text \<open>The same collections in \<open>SWIFT_classify\<close>: bounded by the AOI, cloud limit 50.\<close>

definition L8_classify :: "inputs \<Rightarrow> optical_image list" where
  "L8_classify inp =
     map L8QAMask
       (filter (\<lambda>im. CLOUD_COVER im < 50)
          (calendarRange_month 3 11
             (filterDate (start_date inp) (end_date inp)
                (filterBounds (AOI inp) (LANDSAT_LC08_C02_T1_L2 inp)))))"

definition S2_classify :: "inputs \<Rightarrow> optical_image list" where
  "S2_classify inp =
     map harmonize
       (map S2QAMask
          (filter (\<lambda>im. CLOUD_COVERAGE_ASSESSMENT im < 50)
             (calendarRange_month 3 11
                (filterDate (start_date inp) (end_date inp)
                   (filterBounds (AOI inp) (COPERNICUS_S2_SR_HARMONIZED inp))))))"

definition L8S2_classify :: "inputs \<Rightarrow> optical_image list" where
  "L8S2_classify inp = L8_classify inp @ S2_classify inp"

definition L8S2_classified_classify :: "inputs \<Rightarrow> error + classified_image list" where
  "L8S2_classified_classify inp =
     map_result (classify_with (optical_classifier_classify inp))
       (map waterMapping (L8S2_classify inp))"

subsection \<open>Radar\<close>

definition S1_preprocess :: "inputs \<Rightarrow> radar_image list" where
  "S1_preprocess inp =
     s1_preproc inp
       \<lparr> START_DATE = start_date inp, STOP_DATE = end_date inp, GEOMETRY = AOI inp \<rparr>"

definition S1_cf :: "inputs \<Rightarrow> classified_image list" where
  "S1_cf inp = map (classify_radar (S1_classifier inp)) (S1_preprocess inp)"

definition S1_cf_classify :: "inputs \<Rightarrow> classified_image list" where
  "S1_cf_classify inp = map (classify_radar (S1_classifier_classify inp)) (S1_preprocess inp)"

text \<open>
  \<open>windMask\<close>. The wind catalogue is filtered to the query dates; the maxima of the two
  wind components over that collection give the speed. With no wind image in the range
  the reduced image has no band, and naming or selecting \<open>windy\<close> fails.
\<close>

definition windMask :: "inputs \<Rightarrow> classified_image \<Rightarrow> error + classified_image" where
  "windMask inp im =
     (let wx = filterDate (start_date inp) (end_date inp) (NOAA_CFSV2_FOR6H inp)
      in if wx = [] then Inl (BandNotFound ''windy'')
         else
           (let vWind = map v_component_of_wind_height_above_ground wx;
                a = max_band vWind;
                uWind = map u_component_of_wind_height_above_ground wx;
                b = max_band uWind;
                a = pow2 a;
                b = pow2 b;
                ab = add a b;
                ws = sqrt_img ab;
                ws = multiply_const ws 3.6;
                wmask = lt ws 12.0
            in Inr (im\<lparr> classification := updateMask (classification im) wmask \<rparr>)))"

text \<open>
  The smoothing step of the scripts,
  \<open>im.select('classification').convolve(boxcar).gt(0.97)\<close>.
\<close>

definition smooth :: "inputs \<Rightarrow> classified_image \<Rightarrow> classified_image" where
  "smooth inp im = im\<lparr> classification := gt (convolve_boxcar inp (classification im)) 0.97 \<rparr>"

definition S1_classified :: "inputs \<Rightarrow> error + classified_image list" where
  "S1_classified inp = map_result (windMask inp) (map (smooth inp) (S1_cf inp))"

definition S1_classified_classify :: "inputs \<Rightarrow> error + classified_image list" where
  "S1_classified_classify inp = map_result (windMask inp) (map (smooth inp) (S1_cf_classify inp))"

section \<open>Mosaics by date\<close>

text \<open>
  The classified images of both modalities are merged. The field \<open>time_start\<close> of a
  classified image is the acquisition time of the scene it was computed from.
\<close>

definition collection :: "inputs \<Rightarrow> error + classified_image list" where
  "collection inp =
     (case L8S2_classified inp of Inl e \<Rightarrow> Inl e
      | Inr optical \<Rightarrow>
          (case S1_classified inp of Inl e \<Rightarrow> Inl e
           | Inr s1 \<Rightarrow> Inr (optical @ s1)))"

definition collection_classify :: "inputs \<Rightarrow> error + classified_image list" where
  "collection_classify inp =
     (case L8S2_classified_classify inp of Inl e \<Rightarrow> Inl e
      | Inr optical \<Rightarrow>
          (case S1_classified_classify inp of Inl e \<Rightarrow> Inl e
           | Inr s1 \<Rightarrow>
               Inr (map (\<lambda>im. im\<lparr> classification := clip (classification im) (AOI inp) \<rparr>)
                      (optical @ s1))))"

text \<open>
  The result of \<open>collection.median().set(...)\<close>. Reducing an empty collection gives an
  image without bands: \<open>classification_band\<close> is \<open>None\<close> then.
\<close>

record mosaic_image =
  classification_band :: "raster option"
  system_time_start :: int
  dateYMD :: ymd
  numbImages :: nat

definition median_collection :: "classified_image list \<Rightarrow> raster option" where
  "median_collection c = (if c = [] then None else Some (median_band (map classification c)))"

definition mosaicByDate :: "classified_image list \<Rightarrow> int \<Rightarrow> mosaic_image" where
  "mosaicByDate c date =
     \<lparr> classification_band = median_collection c,
       system_time_start = date,
       dateYMD = format_YMD date,
       numbImages = length c \<rparr>"

definition monthDifference :: "inputs \<Rightarrow> int" where
  "monthDifference inp = advance_month (start_date inp) - start_date inp"

definition weekDifference :: "inputs \<Rightarrow> int" where
  "weekDifference inp = advance_week 1 (start_date inp) - start_date inp"

definition listMap :: "inputs \<Rightarrow> int list" where
  "listMap inp = sequence (start_date inp) (end_date inp) (monthDifference inp)"

definition listMap_classify :: "inputs \<Rightarrow> int list" where
  "listMap_classify inp = sequence (start_date inp) (end_date inp) (weekDifference inp)"

text \<open>
  constructTimeSeries then evaluates \<open>mosaics.map(function (im){return im.clip(AOI)})\<close>
  without binding the result; \<open>mosaics\<close> stays as it is.
\<close>

definition mosaics :: "inputs \<Rightarrow> error + mosaic_image list" where
  "mosaics inp =
     (case collection inp of Inl e \<Rightarrow> Inl e
      | Inr c \<Rightarrow> Inr (map (mosaicByDate c) (listMap inp)))"

definition weeklyMosaics :: "inputs \<Rightarrow> error + mosaic_image list" where
  "weeklyMosaics inp =
     (case collection_classify inp of Inl e \<Rightarrow> Inl e
      | Inr c \<Rightarrow> Inr (map (mosaicByDate c) (listMap_classify inp)))"

text \<open>
  What the specification asks of the compositor, for comparison: the images of a
  collection acquired within the period that starts at \<open>date\<close> and lasts \<open>step\<close>.
\<close>

definition spec_period_images :: "classified_image list \<Rightarrow> int \<Rightarrow> int \<Rightarrow> classified_image list" where
  "spec_period_images c date step =
     filter (\<lambda>im. date \<le> time_start im \<and> time_start im < date + step) c"

section \<open>Water mask, drainage mask and areas\<close>

definition select_classification :: "mosaic_image \<Rightarrow> error + raster" where
  "select_classification im =
     (case classification_band im of None \<Rightarrow> Inl (BandNotFound ''classification'')
      | Some c \<Rightarrow> Inr c)"

definition maskNonWater :: "mosaic_image \<Rightarrow> error + mosaic_image" where
  "maskNonWater im =
     (case select_classification im of Inl e \<Rightarrow> Inl e
      | Inr c \<Rightarrow> Inr (im\<lparr> classification_band := Some (updateMask c (lt c 1)) \<rparr>))"

definition water_collection :: "inputs \<Rightarrow> error + mosaic_image list" where
  "water_collection inp =
     (case mosaics inp of Inl e \<Rightarrow> Inl e | Inr ms \<Rightarrow> map_result maskNonWater ms)"

definition water_collection_classify :: "inputs \<Rightarrow> error + mosaic_image list" where
  "water_collection_classify inp =
     (case weeklyMosaics inp of Inl e \<Rightarrow> Inl e | Inr ms \<Rightarrow> map_result maskNonWater ms)"

definition HANDmask :: "inputs \<Rightarrow> raster" where
  "HANDmask inp = lt (MERIT_Hydro_hnd inp) 10"

definition water_masked :: "inputs \<Rightarrow> error + mosaic_image list" where
  "water_masked inp =
     (case water_collection inp of Inl e \<Rightarrow> Inl e
      | Inr ws \<Rightarrow>
          Inr (map (\<lambda>im. im\<lparr> classification_band :=
                               map_option (\<lambda>c. updateMask c (HANDmask inp)) (classification_band im) \<rparr>)
                 ws))"

text \<open>
  \<open>reduceRegion\<close> with the sum reducer: the sum of the values the band has at the pixels
  of the region, 0 when it has none; it fails when the region has more pixels than
  \<open>maxPixels\<close>. The value it returns can be null for other reducers, hence the option.
\<close>

definition reduceRegion_sum :: "raster \<Rightarrow> geometry \<Rightarrow> nat \<Rightarrow> error + real option" where
  "reduceRegion_sum band g maxPixels =
     (let px = remdups g
      in if maxPixels < length px then Inl TooManyPixels
         else Inr (Some (sum_list (map (\<lambda>p. case band p of None \<Rightarrow> 0 | Some v \<Rightarrow> v) px))))"

record area_image =
  mosaic :: mosaic_image
  waterArea :: raster
  area :: "real option"
  date_formatted :: ymd

text \<open>
  \<open>calculateWaterArea_AOI\<close> of constructTimeSeries: the band is multiplied by the pixel
  area divided by \<open>1e6\<close>, and summed over the AOI.
\<close>

definition calculateWaterArea_AOI :: "inputs \<Rightarrow> mosaic_image \<Rightarrow> error + area_image" where
  "calculateWaterArea_AOI inp im =
     (case select_classification im of Inl e \<Rightarrow> Inl e
      | Inr c \<Rightarrow>
          (let wa = multiply c (divide_const (\<lambda>p. Some (pixelArea inp p)) 1000000)
           in case reduceRegion_sum wa (AOI inp) (10 ^ 13) of Inl e \<Rightarrow> Inl e
              | Inr a \<Rightarrow>
                  Inr \<lparr> mosaic = im, waterArea = wa, area = a,
                        date_formatted = format_YMD (system_time_start im) \<rparr>))"

definition waterArea_AOI :: "inputs \<Rightarrow> error + area_image list" where
  "waterArea_AOI inp =
     (case water_masked inp of Inl e \<Rightarrow> Inl e
      | Inr ws \<Rightarrow> map_result (calculateWaterArea_AOI inp) ws)"

text \<open>
  \<open>calculateWaterArea_AOI\<close> of \<open>SWIFT_classify\<close>: no division by \<open>1e6\<close>; it is mapped over
  \<open>water_collection\<close>, the collection before the drainage mask.
\<close>

definition calculateWaterArea_AOI_classify :: "inputs \<Rightarrow> mosaic_image \<Rightarrow> error + area_image" where
  "calculateWaterArea_AOI_classify inp im =
     (case select_classification im of Inl e \<Rightarrow> Inl e
      | Inr c \<Rightarrow>
          (let wa = multiply c (\<lambda>p. Some (pixelArea inp p))
           in case reduceRegion_sum wa (AOI inp) (10 ^ 13) of Inl e \<Rightarrow> Inl e
              | Inr a \<Rightarrow>
                  Inr \<lparr> mosaic = im, waterArea = wa, area = a,
                        date_formatted = format_YMD (system_time_start im) \<rparr>))"

definition waterArea_AOI_classify :: "inputs \<Rightarrow> error + area_image list" where
  "waterArea_AOI_classify inp =
     (case water_collection_classify inp of Inl e \<Rightarrow> Inl e
      | Inr ws \<Rightarrow> map_result (calculateWaterArea_AOI_classify inp) ws)"

text \<open>
  \<open>classifyWater\<close> returns the first image of \<open>waterArea_AOI\<close> with the blue, green and
  red bands of the first optical image added.
\<close>

definition first_image :: "'a list \<Rightarrow> error + 'a" where
  "first_image xs = (case xs of [] \<Rightarrow> Inl EmptyCollection | x # _ \<Rightarrow> Inr x)"

definition classifyWater :: "inputs \<Rightarrow> error + area_image \<times> raster \<times> raster \<times> raster" where
  "classifyWater inp =
     (case waterArea_AOI_classify inp of Inl e \<Rightarrow> Inl e
      | Inr was \<Rightarrow>
          (case first_image was of Inl e \<Rightarrow> Inl e
           | Inr w \<Rightarrow>
               (case first_image (L8S2_classify inp) of Inl e \<Rightarrow> Inl e
                | Inr rgb \<Rightarrow> Inr (w, blue rgb, green rgb, red rgb))))"

subsection \<open>Areas per allotment\<close>

definition allotments :: "inputs \<Rightarrow> geometry list" where
  "allotments inp = filter (\<lambda>f. \<exists>p \<in> set f. p \<in> set (AZ inp)) (allotments_USFS inp)"

definition allotment_area :: "inputs \<Rightarrow> geometry \<Rightarrow> mosaic_image \<Rightarrow> error + real option \<times> ymd" where
  "allotment_area inp feature im =
     (case select_classification im of Inl e \<Rightarrow> Inl e
      | Inr c \<Rightarrow>
          (let wa = multiply c (divide_const (\<lambda>p. Some (pixelArea inp p)) 1000000)
           in case reduceRegion_sum wa feature (10 ^ 10) of Inl e \<Rightarrow> Inl e
              | Inr a \<Rightarrow> Inr (a, format_YMD (system_time_start im))))"

definition calculateWaterArea_allotments :: "inputs \<Rightarrow> geometry \<Rightarrow> error + geometry \<times> real option list \<times> ymd list" where
  "calculateWaterArea_allotments inp feature =
     (case water_masked inp of Inl e \<Rightarrow> Inl e
      | Inr ws \<Rightarrow>
          (case map_result (allotment_area inp feature) ws of Inl e \<Rightarrow> Inl e
           | Inr areaTimeSeries \<Rightarrow>
               Inr (feature, map fst areaTimeSeries, map snd areaTimeSeries)))"

definition waterArea_allotments :: "inputs \<Rightarrow> error + (geometry \<times> real option list \<times> ymd list) list" where
  "waterArea_allotments inp = map_result (calculateWaterArea_allotments inp) (allotments inp)"

section \<open>The radar accuracy assessment script\<close>

text \<open>
  The script fixes its dates and takes the labelled points as its AOI. Its variables are
  the definitions below, in the order of the script, with the suffix \<open>_acc\<close>.
\<close>

definition start_date_acc :: int where
  "start_date_acc = ee_Date (2018, 1, 20)"

definition end_date_acc :: int where
  "end_date_acc = ee_Date (2018, 2, 4)"

definition S1_preprocess_acc :: "inputs \<Rightarrow> radar_image list" where
  "S1_preprocess_acc inp =
     s1_preproc inp
       \<lparr> START_DATE = start_date_acc, STOP_DATE = end_date_acc,
         GEOMETRY = map fst (points inp) \<rparr>"

definition datesList_acc :: "inputs \<Rightarrow> int list" where
  "datesList_acc inp = map time_start (S1_preprocess_acc inp)"

text \<open>
  \<open>ws\<close>: one wind-speed image per radar date, each computed from the whole date range.
\<close>

definition ws_acc :: "inputs \<Rightarrow> (raster \<times> int) list" where
  "ws_acc inp =
     map (\<lambda>date.
            (let wx = filterDate start_date_acc end_date_acc (NOAA_CFSV2_FOR6H inp);
                 vWind = map v_component_of_wind_height_above_ground wx;
                 a = max_band vWind;
                 uWind = map u_component_of_wind_height_above_ground wx;
                 b = max_band uWind;
                 a = pow2 a;
                 b = pow2 b;
                 ab = add a b;
                 ws = sqrt_img ab;
                 ws = multiply_const ws 3.6
             in (ws, date)))
       (datesList_acc inp)"





definition S1_mosaic_acc :: "inputs \<Rightarrow> radar_image" where
  "S1_mosaic_acc inp = mosaic_radar (S1_preprocess_acc inp)"

definition observedPoints_acc :: "inputs \<Rightarrow> sample list" where
  "observedPoints_acc inp =
     randomColumn (random_seq inp)
       (sample_bands [VV (S1_mosaic_acc inp), VH (S1_mosaic_acc inp), angle (S1_mosaic_acc inp)]
          (points inp))"

definition split :: real where
  "split = 0.8"

definition training_acc :: "inputs \<Rightarrow> sample list" where
  "training_acc inp = filter (\<lambda>s. random_col s < split) (observedPoints_acc inp)"


definition classifier_acc :: "inputs \<Rightarrow> classifier" where
  "classifier_acc inp =
     train (forest_fit inp) (smileRandomForest 500) (training_acc inp) ''water'' S1_bands"









section \<open>Example data\<close>

text \<open>
  A small run used to instantiate the theorems below: three pixels, one Landsat scene on
  2018-01-28, inside the training windows of both scripts, one in January and one in June
  2021, one Sentinel-2 scene in June 2021, calm wind, and a query from 2021-01-01 to
  2021-07-01. The fitted forest of the example votes "water" when the first
  predictor is positive (optical) or below -18 dB (radar).
\<close>

definition example_L8_scene :: "int \<Rightarrow> L8_image" where
  "example_L8_scene t =
     \<lparr> time_start = t, footprint = [0, 1],
       SR_B2 = constant_img 500, SR_B3 = constant_img 800, SR_B4 = constant_img 600,
       SR_B5 = constant_img 300, SR_B6 = constant_img 200, SR_B7 = constant_img 100,
       QA_PIXEL = (\<lambda>p. Some 0), CLOUD_COVER = 5 \<rparr>"

definition example_S2_scene :: "int \<Rightarrow> S2_image" where
  "example_S2_scene t =
     \<lparr> time_start = t, footprint = [0, 1],
       B2 = constant_img 500, B3 = constant_img 800, B4 = constant_img 600,
       B8 = constant_img 300, B11 = constant_img 200, B12 = constant_img 100,
       QA60 = constant_img 0, CLOUD_COVERAGE_ASSESSMENT = 5 \<rparr>"

definition example_radar_scene :: "int \<Rightarrow> radar_image" where
  "example_radar_scene t =
     \<lparr> time_start = t, footprint = [0, 1],
       VV = constant_img (-20), VH = constant_img (-27), angle = constant_img 38 \<rparr>"

definition example_wind_scene :: "int \<Rightarrow> real \<Rightarrow> real \<Rightarrow> wind_image" where
  "example_wind_scene t u v =
     \<lparr> time_start = t, footprint = [0, 1, 2],
       u_component_of_wind_height_above_ground = constant_img u,
       v_component_of_wind_height_above_ground = constant_img v \<rparr>"

definition example_fit :: forest_fit where
  "example_fit n samples f =
     (case f of [] \<Rightarrow> False | x # _ \<Rightarrow> if length f = 4 then 0 < x else x < -18)"

definition example_inputs :: inputs where
  "example_inputs =
     \<lparr> LANDSAT_LC08_C02_T1_L2 =
         [example_L8_scene (ee_Date (2018, 1, 28)), example_L8_scene (ee_Date (2021, 1, 10)),
          example_L8_scene (ee_Date (2021, 6, 1))],
       COPERNICUS_S2 = [example_S2_scene (ee_Date (2021, 6, 2))],
       COPERNICUS_S2_SR_HARMONIZED = [example_S2_scene (ee_Date (2021, 6, 2))],
       NOAA_CFSV2_FOR6H = [example_wind_scene (ee_Date (2021, 6, 1)) 0 0],
       MERIT_Hydro_hnd = constant_img 5,
       pixelArea = (\<lambda>p. 900),
       s1_preproc = (\<lambda>prm. [example_radar_scene (START_DATE prm)]),
       convolve_boxcar = (\<lambda>r. r),
       forest_fit = example_fit,
       random_seq = (\<lambda>i. 1 / 2),
       water = [0],
       nonWater = [1],
       allotments_USFS = [[0], [1, 2]],
       AZ = [0, 1, 2],
       export_geometry = [0, 1],
       AOI = [0, 1],
       start_date = ee_Date (2021, 1, 1),
       end_date = ee_Date (2021, 7, 1) \<rparr>"


text \<open>
  The query the app makes: the five days before the selected date, here 2021-05-30 to
  2021-06-04.
\<close>

definition example_query :: inputs where
  "example_query =
     example_inputs \<lparr> start_date := ee_Date (2021, 5, 30), end_date := ee_Date (2021, 6, 4) \<rparr>"


text \<open>
  The same query with one Landsat scene over open water and one radar scene with the
  backscatter of dry land, and no Sentinel-2 scene: two classified images that disagree
  at every pixel.
\<close>

definition example_land_scene :: "int \<Rightarrow> radar_image" where
  "example_land_scene t =
     \<lparr> time_start = t, footprint = [0, 1],
       VV = constant_img (-10), VH = constant_img (-17), angle = constant_img 38 \<rparr>"


text \<open>The same query on a windy day: wind components of 3 and 4 m/s, that is 18 km/h.\<close>

definition example_windy :: inputs where
  "example_windy =
     example_query \<lparr> NOAA_CFSV2_FOR6H := [example_wind_scene (ee_Date (2021, 6, 1)) 3 4] \<rparr>"

text \<open>
  A two-week query from 2021-06-01 to 2021-06-15 with radar imagery only: one scene on
  2021-06-02 over open water, and two scenes on 2021-06-09 and 2021-06-10 with the
  backscatter of dry land. The week that starts on 2021-06-01 holds the first scene only.
\<close>

definition example_two_weeks :: inputs where
  "example_two_weeks =
     example_inputs
       \<lparr> LANDSAT_LC08_C02_T1_L2 := [],
         COPERNICUS_S2 := [],
         COPERNICUS_S2_SR_HARMONIZED := [],
         NOAA_CFSV2_FOR6H := [example_wind_scene 1622592000000 0 0],
         s1_preproc := (\<lambda>prm. [example_radar_scene 1622592000000,
                                 example_land_scene 1623196800000,
                                 example_land_scene 1623283200000]),
         start_date := 1622505600000,
         end_date := 1623715200000 \<rparr>"

text \<open>
  A dark Sentinel-2 pixel, harmonized: the digital numbers 400, 300, 200 and 100 in the
  visible and near-infrared bands and 0 in the two short-wave infrared bands.
\<close>

definition example_dark_pixel :: optical_image where
  "example_dark_pixel =
     harmonize
       \<lparr> time_start = 0, footprint = [0], blue = constant_img 400,
         green = constant_img 300, red = constant_img 200, NIR = constant_img 100,
         SWIR1 = constant_img 0, SWIR2 = constant_img 0 \<rparr>"

section \<open>What the specification asks of the indices\<close>

text \<open>
  Written from the specification, for comparison with \<open>waterMapping\<close>: the closed forms
  of the four indices over exact band values. \<open>spec_TCW_magnitude\<close> is the sum of the
  magnitudes of the six terms of the tasselled-cap form, the scale against which its
  rounding error is measured.
\<close>

definition spec_ratio :: "real \<Rightarrow> real \<Rightarrow> real" where
  "spec_ratio x y = (x - y) / (x + y)"

definition spec_AWEIsh :: "real \<Rightarrow> real \<Rightarrow> real \<Rightarrow> real \<Rightarrow> real \<Rightarrow> real" where
  "spec_AWEIsh b g n s1 s2 = b + 2.5 * g - 1.5 * (n + s1) - 0.25 * s2"

definition spec_TCW :: "real \<Rightarrow> real \<Rightarrow> real \<Rightarrow> real \<Rightarrow> real \<Rightarrow> real \<Rightarrow> real" where
  "spec_TCW b g r n s1 s2 =
     0.1511 * b + 0.1973 * g + 0.3283 * r + 0.3407 * n - 0.7117 * s1 - 0.4559 * s2"

definition spec_TCW_magnitude :: "real \<Rightarrow> real \<Rightarrow> real \<Rightarrow> real \<Rightarrow> real \<Rightarrow> real \<Rightarrow> real" where
  "spec_TCW_magnitude b g r n s1 s2 =
     0.1511 * \<bar>b\<bar> + 0.1973 * \<bar>g\<bar> + 0.3283 * \<bar>r\<bar> + 0.3407 * \<bar>n\<bar>
     + 0.7117 * \<bar>s1\<bar> + 0.4559 * \<bar>s2\<bar>"

section \<open>What the specification asks of the aggregator\<close>

text \<open>
  Written from the specification, for comparison with the scripts: the sum of the pixel
  areas over the pixels of the region whose label in the composite is 1.
\<close>

definition spec_water_area :: "raster \<Rightarrow> (pixel \<Rightarrow> real) \<Rightarrow> geometry \<Rightarrow> real" where
  "spec_water_area c pa g = sum_list (map pa (filter (\<lambda>p. c p = Some 1) (remdups g)))"

section \<open>Rounding to 32-bit floating point\<close>

lemma round_half_even_error: "\<bar>of_int (round_half_even x) - x\<bar> \<le> 1 / 2"
  unfolding round_half_even_def Let_def by (auto; linarith)

lemma round_half_even_ge_one: "1 \<le> x \<Longrightarrow> 1 \<le> round_half_even x"
  unfolding round_half_even_def Let_def by (auto; linarith)

lemma toFloat_at:
  assumes "2 powr (of_int e) \<le> \<bar>x\<bar>" and "\<bar>x\<bar> < 2 powr (of_int (e + 1))"
  shows "toFloat x
         = of_int (round_half_even (x / 2 powr (of_int (e - 23)))) * 2 powr (of_int (e - 23))"
proof -
  have pos: "0 < \<bar>x\<bar>" using assms(1) powr_gt_zero [of 2 "of_int e"] by linarith
  have "\<lfloor>log 2 \<bar>x\<bar>\<rfloor> = e"
    using floor_log_eq_powr_iff [where b = 2 and x = "\<bar>x\<bar>" and k = e] pos assms by simp
  moreover have "x \<noteq> 0" using pos by simp
  ultimately show ?thesis unfolding toFloat_def Let_def by simp
qed

lemma ulp_le:
  assumes "x \<noteq> 0"
  shows "2 powr (of_int (\<lfloor>log 2 \<bar>x\<bar>\<rfloor> - 23)) * 2 ^ 23 \<le> \<bar>x\<bar>"
proof -
  define e where "e = \<lfloor>log 2 \<bar>x\<bar>\<rfloor>"
  have pos: "0 < \<bar>x\<bar>" using assms by simp
  have "\<lfloor>log 2 \<bar>x\<bar>\<rfloor> = e" by (simp add: e_def)
  then have "2 powr (of_int e) \<le> \<bar>x\<bar>"
    using floor_log_eq_powr_iff [where b = 2 and x = "\<bar>x\<bar>" and k = e] pos by simp
  moreover have "(2 :: real) powr (of_int e) = 2 powr (of_int (e - 23)) * 2 ^ 23"
    by (simp add: powr_diff)
  ultimately show ?thesis by (simp add: e_def)
qed

text \<open>The cast moves a value by at most one part in \<open>2 ^ 24\<close> of its magnitude.\<close>

lemma toFloat_error: "\<bar>toFloat x - x\<bar> \<le> \<bar>x\<bar> / 2 ^ 24"
proof (cases "x = 0")
  case True then show ?thesis by (simp add: toFloat_def)
next
  case False
  define ulp :: real where "ulp = 2 powr (of_int (\<lfloor>log 2 \<bar>x\<bar>\<rfloor> - 23))"
  have ulp_pos: "0 < ulp" by (simp add: ulp_def)
  have ulp_le: "ulp * 2 ^ 23 \<le> \<bar>x\<bar>" using ulp_le [OF False] by (simp add: ulp_def)
  have tf: "toFloat x = of_int (round_half_even (x / ulp)) * ulp"
    using False unfolding toFloat_def Let_def ulp_def by simp
  have "\<bar>toFloat x - x\<bar> = \<bar>of_int (round_half_even (x / ulp)) - x / ulp\<bar> * ulp"
  proof -
    have "toFloat x - x = (of_int (round_half_even (x / ulp)) - x / ulp) * ulp"
      using ulp_pos by (simp add: tf field_simps)
    then show ?thesis using ulp_pos by (simp add: abs_mult)
  qed
  also have "\<dots> \<le> (1 / 2) * ulp"
    using round_half_even_error [of "x / ulp"] ulp_pos by (intro mult_right_mono) simp_all
  also have "\<dots> \<le> \<bar>x\<bar> / 2 ^ 24" using ulp_le by simp
  finally show ?thesis .
qed

lemma toFloat_pos:
  assumes "0 < x"
  shows "0 < toFloat x"
proof -
  define ulp :: real where "ulp = 2 powr (of_int (\<lfloor>log 2 \<bar>x\<bar>\<rfloor> - 23))"
  have ulp_pos: "0 < ulp" by (simp add: ulp_def)
  have nz: "x \<noteq> 0" using assms by simp
  have "ulp * 2 ^ 23 \<le> x" using ulp_le [OF nz] assms by (simp add: ulp_def)
  moreover have "ulp * 1 \<le> ulp * 2 ^ 23" using ulp_pos by (intro mult_left_mono) simp_all
  ultimately have "1 * ulp \<le> x" by simp
  then have "1 \<le> x / ulp" using ulp_pos by (simp add: field_simps)
  then have "1 \<le> round_half_even (x / ulp)" by (rule round_half_even_ge_one)
  then have "0 < (of_int (round_half_even (x / ulp)) :: real)" by simp
  moreover have "toFloat x = of_int (round_half_even (x / ulp)) * ulp"
    using nz unfolding toFloat_def Let_def ulp_def by simp
  ultimately show ?thesis using ulp_pos by simp
qed

lemma toFloat_img_Some: "toFloat_img a p = Some y \<longleftrightarrow> (\<exists>x. a p = Some x \<and> y = toFloat x)"
  by (auto simp: toFloat_img_def)

lemma toFloat_img_None: "toFloat_img a p = None \<longleftrightarrow> a p = None"
  by (simp add: toFloat_img_def)

section \<open>Facts about the example data\<close>

lemma example_dates:
  "ee_Date (2021, 1, 1) = 1609459200000" "ee_Date (2021, 1, 10) = 1610236800000"
  "ee_Date (2021, 6, 1) = 1622505600000" "ee_Date (2021, 6, 2) = 1622592000000"
  "ee_Date (2021, 7, 1) = 1625097600000" "ee_Date (2018, 1, 28) = 1517097600000"
  by code_simp+

lemma training_dates:
  "ee_Date (2018, 1, 25) = 1516838400000" "ee_Date (2018, 2, 7) = 1517961600000"
  "ee_Date (2018, 1, 27) = 1517011200000" "ee_Date (2018, 2, 2) = 1517529600000"
  by code_simp+

lemma example_months:
  "month_of 1610236800000 = 1" "month_of 1622505600000 = 6" "month_of 1622592000000 = 6"
  by code_simp+

lemma example_L8: "L8 example_inputs = [L8QAMask (example_L8_scene (ee_Date (2021, 6, 1)))]"
  by (simp add: L8_def example_inputs_def filterBounds_def filterDate_def calendarRange_month_def
      example_L8_scene_def example_dates example_months)

lemma example_S2:
  "S2 example_inputs = [harmonize (S2QAMask (example_S2_scene (ee_Date (2021, 6, 2))))]"
  by (simp add: S2_def example_inputs_def filterBounds_def filterDate_def calendarRange_month_def
      example_S2_scene_def example_dates example_months)

lemma example_L8_classify:
  "L8_classify example_inputs = [L8QAMask (example_L8_scene (ee_Date (2021, 6, 1)))]"
  by (auto simp add: L8_classify_def example_inputs_def filterBounds_def filterDate_def
      calendarRange_month_def example_L8_scene_def example_dates example_months)

lemma example_S2_classify:
  "S2_classify example_inputs = [harmonize (S2QAMask (example_S2_scene (ee_Date (2021, 6, 2))))]"
  by (auto simp add: S2_classify_def example_inputs_def filterBounds_def filterDate_def
      calendarRange_month_def example_S2_scene_def example_dates example_months)

lemma example_L8_bands:
  "blue (L8QAMask (example_L8_scene t)) 0 = Some 0.05"
  "green (L8QAMask (example_L8_scene t)) 0 = Some 0.08"
  "red (L8QAMask (example_L8_scene t)) 0 = Some 0.06"
  "NIR (L8QAMask (example_L8_scene t)) 0 = Some 0.03"
  "SWIR1 (L8QAMask (example_L8_scene t)) 0 = Some 0.02"
  "SWIR2 (L8QAMask (example_L8_scene t)) 0 = Some 0.01"
  by (simp_all add: L8QAMask_def example_L8_scene_def L8_qa_mask_def updateMask_def
      divide_const_def constant_img_def Let_def)

section \<open>Harmonization\<close>

lemma harmonize_band:
  "add (multiply b (constant_img g)) (constant_img c) = (\<lambda>p. map_option (\<lambda>x. g * x + c) (b p))"
  by (auto simp: add_def multiply_def lift2_def constant_img_def fun_eq_iff mult.commute
      split: option.splits)

lemma unharmonize_band:
  assumes "g \<noteq> 0"
  shows "(\<lambda>p. map_option (\<lambda>y. (y - c) / g)
               (add (multiply b (constant_img g)) (constant_img c) p)) = b"
proof
  fix p
  show "map_option (\<lambda>y. (y - c) / g) (add (multiply b (constant_img g)) (constant_img c) p) = b p"
    using assms by (cases "b p") (simp_all add: harmonize_band)
qed

lemma GAIN_nth:
  "GAIN ! 0 = 0.9778" "GAIN ! 1 = 1.0053" "GAIN ! 2 = 0.9765"
  "GAIN ! 3 = 0.9983" "GAIN ! 4 = 0.9987" "GAIN ! 5 = 1.003"
  by (simp_all add: GAIN_def)

lemma BIAS_nth:
  "BIAS ! 0 = -0.00411" "BIAS ! 1 = -0.00093" "BIAS ! 2 = 0.00094"
  "BIAS ! 3 = -0.0001" "BIAS ! 4 = -0.0015" "BIAS ! 5 = -0.0012"
  by (simp_all add: BIAS_def)

lemma GAIN_nonzero:
  "GAIN ! 0 \<noteq> 0" "GAIN ! Suc 0 \<noteq> 0" "GAIN ! 2 \<noteq> 0"
  "GAIN ! 3 \<noteq> 0" "GAIN ! 4 \<noteq> 0" "GAIN ! 5 \<noteq> 0"
  by (simp_all add: GAIN_def)

lemma unharmonize_harmonize: "spec_unharmonize (harmonize im) = im"
  unfolding spec_unharmonize_def harmonize_def Let_def
  by (simp add: unharmonize_band GAIN_nonzero)

lemma harmonize_bands:
  "blue (harmonize im) p = map_option (\<lambda>x. 0.9778 * x + (-0.00411)) (blue im p)"
  "green (harmonize im) p = map_option (\<lambda>x. 1.0053 * x + (-0.00093)) (green im p)"
  "red (harmonize im) p = map_option (\<lambda>x. 0.9765 * x + 0.00094) (red im p)"
  "NIR (harmonize im) p = map_option (\<lambda>x. 0.9983 * x + (-0.0001)) (NIR im p)"
  "SWIR1 (harmonize im) p = map_option (\<lambda>x. 0.9987 * x + (-0.0015)) (SWIR1 im p)"
  "SWIR2 (harmonize im) p = map_option (\<lambda>x. 1.003 * x + (-0.0012)) (SWIR2 im p)"
  unfolding harmonize_def Let_def
  by (simp_all only: optical_image.simps harmonize_band GAIN_nth BIAS_nth)

lemma L8QAMask_bands:
  "blue (L8QAMask src) p = Some y \<Longrightarrow> SR_B2 src p = Some (y * 10000)"
  "green (L8QAMask src) p = Some y \<Longrightarrow> SR_B3 src p = Some (y * 10000)"
  "red (L8QAMask src) p = Some y \<Longrightarrow> SR_B4 src p = Some (y * 10000)"
  "NIR (L8QAMask src) p = Some y \<Longrightarrow> SR_B5 src p = Some (y * 10000)"
  "SWIR1 (L8QAMask src) p = Some y \<Longrightarrow> SR_B6 src p = Some (y * 10000)"
  "SWIR2 (L8QAMask src) p = Some y \<Longrightarrow> SR_B7 src p = Some (y * 10000)"
  by (auto simp: L8QAMask_def Let_def divide_const_def updateMask_def
      split: option.splits if_splits)

lemma S2_sources:
  "x \<in> set (S2 inp) \<union> set (S2training inp t0 t1)
     \<Longrightarrow> \<exists>src \<in> set (COPERNICUS_S2 inp). x = harmonize (S2QAMask src)"
  by (auto simp: S2_def S2training_def filterBounds_def filterDate_def calendarRange_month_def)

lemma S2_classify_sources:
  "x \<in> set (S2_classify inp)
     \<Longrightarrow> \<exists>src \<in> set (COPERNICUS_S2_SR_HARMONIZED inp). x = harmonize (S2QAMask src)"
  by (auto simp: S2_classify_def filterBounds_def filterDate_def calendarRange_month_def)

lemma L8_sources:
  "x \<in> set (L8 inp) \<union> set (L8_classify inp) \<union> set (L8training inp t0 t1)
     \<Longrightarrow> \<exists>src \<in> set (LANDSAT_LC08_C02_T1_L2 inp). x = L8QAMask src"
  by (auto simp: L8_def L8_classify_def L8training_def filterBounds_def filterDate_def
      calendarRange_month_def)

text \<open>
  Claim C5. \<open>harmonize\<close> is the affine map \<open>gain * x + bias\<close> on each of the six bands,
  with the six fixed pairs of coefficients; applying it and then \<open>(y - bias) / gain\<close>
  gives the image back, masked pixels included (over the reals the round trip is exact,
  so it holds within every tolerance). In the training and query collections of both
  scripts it is applied to the Sentinel-2 source only: every image of the Sentinel-2
  collections is the harmonized, quality-masked image of a scene of a Sentinel-2
  catalogue, and every image of the Landsat collections is the quality-masked image of a
  scene of the Landsat catalogue, whose band values are the catalogue's values divided by
  10000, with neither gain nor bias.
\<close>

theorem harmonize_affine_round_trip:
  "spec_unharmonize (harmonize im) = im
   \<and> blue (harmonize im) p = map_option (\<lambda>x. 0.9778 * x + (-0.00411)) (blue im p)
   \<and> green (harmonize im) p = map_option (\<lambda>x. 1.0053 * x + (-0.00093)) (green im p)
   \<and> red (harmonize im) p = map_option (\<lambda>x. 0.9765 * x + 0.00094) (red im p)
   \<and> NIR (harmonize im) p = map_option (\<lambda>x. 0.9983 * x + (-0.0001)) (NIR im p)
   \<and> SWIR1 (harmonize im) p = map_option (\<lambda>x. 0.9987 * x + (-0.0015)) (SWIR1 im p)
   \<and> SWIR2 (harmonize im) p = map_option (\<lambda>x. 1.003 * x + (-0.0012)) (SWIR2 im p)
   \<and> (\<forall>x \<in> set (S2 inp) \<union> set (S2training inp t0 t1).
         \<exists>src \<in> set (COPERNICUS_S2 inp). x = harmonize (S2QAMask src))
   \<and> (\<forall>x \<in> set (S2_classify inp).
         \<exists>src \<in> set (COPERNICUS_S2_SR_HARMONIZED inp). x = harmonize (S2QAMask src))
   \<and> (\<forall>x \<in> set (L8 inp) \<union> set (L8_classify inp) \<union> set (L8training inp t0 t1).
         \<exists>src \<in> set (LANDSAT_LC08_C02_T1_L2 inp).
           x = L8QAMask src
           \<and> (\<forall>q y. blue x q = Some y \<longrightarrow> SR_B2 src q = Some (y * 10000))
           \<and> (\<forall>q y. green x q = Some y \<longrightarrow> SR_B3 src q = Some (y * 10000))
           \<and> (\<forall>q y. red x q = Some y \<longrightarrow> SR_B4 src q = Some (y * 10000))
           \<and> (\<forall>q y. NIR x q = Some y \<longrightarrow> SR_B5 src q = Some (y * 10000))
           \<and> (\<forall>q y. SWIR1 x q = Some y \<longrightarrow> SR_B6 src q = Some (y * 10000))
           \<and> (\<forall>q y. SWIR2 x q = Some y \<longrightarrow> SR_B7 src q = Some (y * 10000)))"
proof -
  have s2: "\<forall>x \<in> set (S2 inp) \<union> set (S2training inp t0 t1).
         \<exists>src \<in> set (COPERNICUS_S2 inp). x = harmonize (S2QAMask src)"
    using S2_sources by blast
  have s2c: "\<forall>x \<in> set (S2_classify inp).
         \<exists>src \<in> set (COPERNICUS_S2_SR_HARMONIZED inp). x = harmonize (S2QAMask src)"
    using S2_classify_sources by blast
  have l8: "\<forall>x \<in> set (L8 inp) \<union> set (L8_classify inp) \<union> set (L8training inp t0 t1).
         \<exists>src \<in> set (LANDSAT_LC08_C02_T1_L2 inp).
           x = L8QAMask src
           \<and> (\<forall>q y. blue x q = Some y \<longrightarrow> SR_B2 src q = Some (y * 10000))
           \<and> (\<forall>q y. green x q = Some y \<longrightarrow> SR_B3 src q = Some (y * 10000))
           \<and> (\<forall>q y. red x q = Some y \<longrightarrow> SR_B4 src q = Some (y * 10000))
           \<and> (\<forall>q y. NIR x q = Some y \<longrightarrow> SR_B5 src q = Some (y * 10000))
           \<and> (\<forall>q y. SWIR1 x q = Some y \<longrightarrow> SR_B6 src q = Some (y * 10000))
           \<and> (\<forall>q y. SWIR2 x q = Some y \<longrightarrow> SR_B7 src q = Some (y * 10000))"
  proof
    fix x
    assume "x \<in> set (L8 inp) \<union> set (L8_classify inp) \<union> set (L8training inp t0 t1)"
    from L8_sources [OF this] obtain src
      where src: "src \<in> set (LANDSAT_LC08_C02_T1_L2 inp)" and x: "x = L8QAMask src" by blast
    show "\<exists>src \<in> set (LANDSAT_LC08_C02_T1_L2 inp).
           x = L8QAMask src
           \<and> (\<forall>q y. blue x q = Some y \<longrightarrow> SR_B2 src q = Some (y * 10000))
           \<and> (\<forall>q y. green x q = Some y \<longrightarrow> SR_B3 src q = Some (y * 10000))
           \<and> (\<forall>q y. red x q = Some y \<longrightarrow> SR_B4 src q = Some (y * 10000))
           \<and> (\<forall>q y. NIR x q = Some y \<longrightarrow> SR_B5 src q = Some (y * 10000))
           \<and> (\<forall>q y. SWIR1 x q = Some y \<longrightarrow> SR_B6 src q = Some (y * 10000))
           \<and> (\<forall>q y. SWIR2 x q = Some y \<longrightarrow> SR_B7 src q = Some (y * 10000))"
      using src L8QAMask_bands [of src] unfolding x by (intro bexI [of _ src]) blast+
  qed
  from unharmonize_harmonize [of im] harmonize_bands [of im p] s2 s2c l8 show ?thesis
    by (intro conjI)
qed

theorem harmonize_affine_round_trip_witness:
  "harmonize (S2QAMask (example_S2_scene (ee_Date (2021, 6, 2)))) \<in> set (S2 example_inputs)
   \<and> harmonize (S2QAMask (example_S2_scene (ee_Date (2021, 6, 2)))) \<in> set (S2_classify example_inputs)
   \<and> L8QAMask (example_L8_scene (ee_Date (2021, 6, 1))) \<in> set (L8 example_inputs)
   \<and> spec_unharmonize (harmonize (S2QAMask (example_S2_scene 0))) = S2QAMask (example_S2_scene 0)
   \<and> green (harmonize (S2QAMask (example_S2_scene 0))) 0 = Some 804.23907
   \<and> (\<exists>src \<in> set (COPERNICUS_S2 example_inputs).
         harmonize (S2QAMask (example_S2_scene (ee_Date (2021, 6, 2)))) = harmonize (S2QAMask src))
   \<and> (\<exists>src \<in> set (COPERNICUS_S2_SR_HARMONIZED example_inputs).
         harmonize (S2QAMask (example_S2_scene (ee_Date (2021, 6, 2)))) = harmonize (S2QAMask src))
   \<and> (\<exists>src \<in> set (LANDSAT_LC08_C02_T1_L2 example_inputs).
         L8QAMask (example_L8_scene (ee_Date (2021, 6, 1))) = L8QAMask src
         \<and> (\<forall>q y. green (L8QAMask (example_L8_scene (ee_Date (2021, 6, 1)))) q = Some y
                \<longrightarrow> SR_B3 src q = Some (y * 10000)))
   \<and> green (L8QAMask (example_L8_scene (ee_Date (2021, 6, 1)))) 0 = Some 0.08"
proof -
  have g: "green (S2QAMask (example_S2_scene 0)) 0 = Some 800"
    by (simp add: S2QAMask_def example_S2_scene_def updateMask_def lt_def constant_img_def Let_def)
  have m: "L8QAMask (example_L8_scene (ee_Date (2021, 6, 1))) \<in> set (L8 example_inputs)"
    by (simp add: example_L8)
  have m2: "harmonize (S2QAMask (example_S2_scene (ee_Date (2021, 6, 2)))) \<in> set (S2 example_inputs)"
    by (simp add: example_S2)
  have m3: "harmonize (S2QAMask (example_S2_scene (ee_Date (2021, 6, 2))))
              \<in> set (S2_classify example_inputs)"
    by (simp add: example_S2_classify)
  note main = harmonize_affine_round_trip [of "S2QAMask (example_S2_scene 0)" 0 example_inputs 0 0]
  from main have rt: "spec_unharmonize (harmonize (S2QAMask (example_S2_scene 0)))
      = S2QAMask (example_S2_scene 0)" by (elim conjE)
  from main g have gr: "green (harmonize (S2QAMask (example_S2_scene 0))) 0 = Some 804.23907"
    by simp
  from main m2 have a: "\<exists>src \<in> set (COPERNICUS_S2 example_inputs).
         harmonize (S2QAMask (example_S2_scene (ee_Date (2021, 6, 2)))) = harmonize (S2QAMask src)"
    by blast
  from main m3 have b: "\<exists>src \<in> set (COPERNICUS_S2_SR_HARMONIZED example_inputs).
         harmonize (S2QAMask (example_S2_scene (ee_Date (2021, 6, 2)))) = harmonize (S2QAMask src)"
    by blast
  from main m have c: "\<exists>src \<in> set (LANDSAT_LC08_C02_T1_L2 example_inputs).
         L8QAMask (example_L8_scene (ee_Date (2021, 6, 1))) = L8QAMask src
         \<and> (\<forall>q y. green (L8QAMask (example_L8_scene (ee_Date (2021, 6, 1)))) q = Some y
                \<longrightarrow> SR_B3 src q = Some (y * 10000))"
    by blast
  from m m2 m3 rt gr a b c example_L8_bands(2) [of "ee_Date (2021, 6, 1)"] show ?thesis
    by (intro conjI)
qed

section \<open>Water indices\<close>

lemma scaled_toFloat_error: "\<bar>c * toFloat x - c * x\<bar> \<le> \<bar>c\<bar> * \<bar>x\<bar> / 2 ^ 24"
proof -
  have "c * toFloat x - c * x = c * (toFloat x - x)" by (simp add: right_diff_distrib)
  then have "\<bar>c * toFloat x - c * x\<bar> = \<bar>c\<bar> * \<bar>toFloat x - x\<bar>" by (simp add: abs_mult)
  also have "\<dots> \<le> \<bar>c\<bar> * (\<bar>x\<bar> / 2 ^ 24)"
    using toFloat_error [of x] by (intro mult_left_mono) simp_all
  finally show ?thesis by simp
qed

lemma sum6_abs:
  fixes d1 :: real
  assumes "\<bar>d1\<bar> \<le> w1" and "\<bar>d2\<bar> \<le> w2" and "\<bar>d3\<bar> \<le> w3"
    and "\<bar>d4\<bar> \<le> w4" and "\<bar>d5\<bar> \<le> w5" and "\<bar>d6\<bar> \<le> w6"
  shows "\<bar>d1 + d2 + d3 + d4 + d5 + d6\<bar> \<le> w1 + w2 + w3 + w4 + w5 + w6"
  using assms by linarith

lemma rounding_chain:
  fixes z :: real
  assumes "\<bar>T' - T\<bar> \<le> W / 2 ^ 24" and "\<bar>T\<bar> \<le> W" and "\<bar>z - T'\<bar> \<le> \<bar>T'\<bar> / 2 ^ 24"
  shows "\<bar>z - T\<bar> \<le> W / 2 ^ 22"
proof -
  have W: "0 \<le> W" using assms(2) by linarith
  have "\<bar>T'\<bar> \<le> W + W / 2 ^ 24" using assms(1,2) by linarith
  then have "\<bar>T'\<bar> / 2 ^ 24 \<le> (W + W / 2 ^ 24) / 2 ^ 24" by (simp add: divide_right_mono)
  also have "\<dots> \<le> 2 * W / 2 ^ 24" using W by simp
  finally have "\<bar>z - T'\<bar> \<le> 2 * W / 2 ^ 24" using assms(3) by linarith
  then have "\<bar>z - T\<bar> \<le> 3 * W / 2 ^ 24" using assms(1) by linarith
  also have "\<dots> \<le> W / 2 ^ 22" using W by simp
  finally show ?thesis .
qed

lemma TCW_rounding:
  "\<bar>toFloat (0.1511 * toFloat b + 0.1973 * toFloat g + 0.3283 * toFloat r + 0.3407 * toFloat n
             + -0.7117 * toFloat s1 + -0.4559 * toFloat s2)
    - spec_TCW b g r n s1 s2\<bar>
   \<le> spec_TCW_magnitude b g r n s1 s2 / 2 ^ 22"
proof -
  define T' where "T' = 0.1511 * toFloat b + 0.1973 * toFloat g + 0.3283 * toFloat r
      + 0.3407 * toFloat n + -0.7117 * toFloat s1 + -0.4559 * toFloat s2"
  have a: "\<bar>(0.1511 * toFloat b - 0.1511 * b) + (0.1973 * toFloat g - 0.1973 * g)
            + (0.3283 * toFloat r - 0.3283 * r) + (0.3407 * toFloat n - 0.3407 * n)
            + (-0.7117 * toFloat s1 - -0.7117 * s1) + (-0.4559 * toFloat s2 - -0.4559 * s2)\<bar>
        \<le> \<bar>0.1511\<bar> * \<bar>b\<bar> / 2 ^ 24 + \<bar>0.1973\<bar> * \<bar>g\<bar> / 2 ^ 24 + \<bar>0.3283\<bar> * \<bar>r\<bar> / 2 ^ 24
          + \<bar>0.3407\<bar> * \<bar>n\<bar> / 2 ^ 24 + \<bar>-0.7117\<bar> * \<bar>s1\<bar> / 2 ^ 24
          + \<bar>-0.4559\<bar> * \<bar>s2\<bar> / 2 ^ 24"
    by (intro sum6_abs scaled_toFloat_error)
  have d: "\<bar>T' - spec_TCW b g r n s1 s2\<bar> \<le> spec_TCW_magnitude b g r n s1 s2 / 2 ^ 24"
    using a unfolding T'_def spec_TCW_def spec_TCW_magnitude_def
    by (simp add: algebra_simps add_divide_distrib)
  have b: "\<bar>0.1511 * b + 0.1973 * g + 0.3283 * r + 0.3407 * n + -0.7117 * s1 + -0.4559 * s2\<bar>
        \<le> \<bar>0.1511 * b\<bar> + \<bar>0.1973 * g\<bar> + \<bar>0.3283 * r\<bar> + \<bar>0.3407 * n\<bar>
          + \<bar>-0.7117 * s1\<bar> + \<bar>-0.4559 * s2\<bar>"
    by (intro sum6_abs order_refl)
  have m: "\<bar>spec_TCW b g r n s1 s2\<bar> \<le> spec_TCW_magnitude b g r n s1 s2"
    using b unfolding spec_TCW_def spec_TCW_magnitude_def by (simp add: abs_mult)
  from rounding_chain [OF d m toFloat_error [of T']] show ?thesis by (simp add: T'_def)
qed

lemma ratio_magnitude:
  fixes x :: real
  assumes "0 \<le> x" and "0 \<le> y" and "x + y \<noteq> 0"
  shows "\<bar>spec_ratio x y\<bar> \<le> 1"
proof -
  have "0 < x + y" using assms by linarith
  moreover have "\<bar>x - y\<bar> \<le> x + y" using assms by linarith
  ultimately show ?thesis by (simp add: spec_ratio_def)
qed

lemma ratio_rounding:
  assumes "0 \<le> x" and "0 \<le> y" and "x + y \<noteq> 0"
  shows "\<bar>toFloat (spec_ratio x y) - spec_ratio x y\<bar> \<le> 1 / 10 ^ 6"
proof -
  have "\<bar>toFloat (spec_ratio x y) - spec_ratio x y\<bar> \<le> \<bar>spec_ratio x y\<bar> / 2 ^ 24"
    by (rule toFloat_error)
  also have "\<dots> \<le> 1 / 2 ^ 24" using ratio_magnitude [OF assms] by (simp add: divide_right_mono)
  also have "\<dots> \<le> (1 :: real) / 10 ^ 6" by simp
  finally show ?thesis .
qed

lemma waterMapping_values:
  assumes "blue im p = Some b" and "green im p = Some g" and "red im p = Some r"
    and "NIR im p = Some n" and "SWIR1 im p = Some s1" and "SWIR2 im p = Some s2"
  shows "AWEIsh (waterMapping im) p = Some (toFloat (spec_AWEIsh b g n s1 s2))"
    and "TCW (waterMapping im) p =
           Some (toFloat (0.1511 * toFloat b + 0.1973 * toFloat g + 0.3283 * toFloat r
                          + 0.3407 * toFloat n + -0.7117 * toFloat s1 + -0.4559 * toFloat s2))"
    and "MNDWI (waterMapping im) p =
           (if g < 0 \<or> s1 < 0 \<or> g + s1 = 0 then None else Some (toFloat (spec_ratio g s1)))"
    and "NDVI (waterMapping im) p =
           (if n < 0 \<or> r < 0 \<or> n + r = 0 then None else Some (toFloat (spec_ratio n r)))"
  using assms
  by (simp_all add: waterMapping_def AWEIsh_expression_def TCW_expression_def
      normalizedDifference_def toFloat_img_def spec_AWEIsh_def spec_ratio_def)

text \<open>
  Claim C4, as amended. At every pixel where the six optical bands have a value:
  AWEIsh is the closed form rounded to 32-bit floating point, within one part in
  \<open>2 ^ 24\<close> of the closed form; TCW is the closed form evaluated on the rounded band
  values and rounded again, within \<open>spec_TCW_magnitude / 2 ^ 22\<close> of the closed form; so
  both are within \<open>1e-6\<close> of the closed form for values of the scale of reflectances (a
  closed-form AWEIsh of magnitude at most 16, a tasselled-cap magnitude of at most 4).
  MNDWI and NDVI are the ratios \<open>(green - SWIR1) / (green + SWIR1)\<close> and
  \<open>(NIR - red) / (NIR + red)\<close> rounded to 32-bit floating point, within \<open>1e-6\<close> of the
  ratio, when both bands of the ratio are non-negative and their sum is not zero. Where a
  band of a ratio is negative or the denominator is zero, that ratio has no value, and
  the other three indices keep theirs.
\<close>

theorem waterMapping_formulas:
  assumes "blue im p = Some b" and "green im p = Some g" and "red im p = Some r"
    and "NIR im p = Some n" and "SWIR1 im p = Some s1" and "SWIR2 im p = Some s2"
  shows "(\<exists>a. AWEIsh (waterMapping im) p = Some a
            \<and> a = toFloat (spec_AWEIsh b g n s1 s2)
            \<and> \<bar>a - spec_AWEIsh b g n s1 s2\<bar> \<le> \<bar>spec_AWEIsh b g n s1 s2\<bar> / 2 ^ 24
            \<and> (\<bar>spec_AWEIsh b g n s1 s2\<bar> \<le> 16 \<longrightarrow> \<bar>a - spec_AWEIsh b g n s1 s2\<bar> \<le> 1 / 10 ^ 6))
       \<and> (\<exists>t. TCW (waterMapping im) p = Some t
            \<and> \<bar>t - spec_TCW b g r n s1 s2\<bar> \<le> spec_TCW_magnitude b g r n s1 s2 / 2 ^ 22
            \<and> (spec_TCW_magnitude b g r n s1 s2 \<le> 4 \<longrightarrow> \<bar>t - spec_TCW b g r n s1 s2\<bar> \<le> 1 / 10 ^ 6))
       \<and> (if g < 0 \<or> s1 < 0 \<or> g + s1 = 0 then MNDWI (waterMapping im) p = None
           else \<exists>m. MNDWI (waterMapping im) p = Some m \<and> m = toFloat (spec_ratio g s1)
                  \<and> \<bar>m - spec_ratio g s1\<bar> \<le> 1 / 10 ^ 6)
       \<and> (if n < 0 \<or> r < 0 \<or> n + r = 0 then NDVI (waterMapping im) p = None
           else \<exists>v. NDVI (waterMapping im) p = Some v \<and> v = toFloat (spec_ratio n r)
                  \<and> \<bar>v - spec_ratio n r\<bar> \<le> 1 / 10 ^ 6)"
proof -
  note vals = waterMapping_values [OF assms]
  have e: "\<bar>toFloat (spec_AWEIsh b g n s1 s2) - spec_AWEIsh b g n s1 s2\<bar>
             \<le> \<bar>spec_AWEIsh b g n s1 s2\<bar> / 2 ^ 24"
    by (rule toFloat_error)
  have e16: "\<bar>spec_AWEIsh b g n s1 s2\<bar> \<le> 16
       \<longrightarrow> \<bar>toFloat (spec_AWEIsh b g n s1 s2) - spec_AWEIsh b g n s1 s2\<bar> \<le> 1 / 10 ^ 6"
  proof
    assume "\<bar>spec_AWEIsh b g n s1 s2\<bar> \<le> 16"
    then have "\<bar>spec_AWEIsh b g n s1 s2\<bar> / 2 ^ 24 \<le> 16 / 2 ^ 24" by (simp add: divide_right_mono)
    also have "\<dots> \<le> (1 :: real) / 10 ^ 6" by simp
    finally show "\<bar>toFloat (spec_AWEIsh b g n s1 s2) - spec_AWEIsh b g n s1 s2\<bar> \<le> 1 / 10 ^ 6"
      using e by linarith
  qed
  have t4: "spec_TCW_magnitude b g r n s1 s2 \<le> 4
       \<longrightarrow> \<bar>toFloat (0.1511 * toFloat b + 0.1973 * toFloat g + 0.3283 * toFloat r
                      + 0.3407 * toFloat n + -0.7117 * toFloat s1 + -0.4559 * toFloat s2)
             - spec_TCW b g r n s1 s2\<bar> \<le> 1 / 10 ^ 6"
  proof
    assume "spec_TCW_magnitude b g r n s1 s2 \<le> 4"
    then have "spec_TCW_magnitude b g r n s1 s2 / 2 ^ 22 \<le> 4 / 2 ^ 22"
      by (simp add: divide_right_mono)
    also have "\<dots> \<le> (1 :: real) / 10 ^ 6" by simp
    finally show "\<bar>toFloat (0.1511 * toFloat b + 0.1973 * toFloat g + 0.3283 * toFloat r
                      + 0.3407 * toFloat n + -0.7117 * toFloat s1 + -0.4559 * toFloat s2)
             - spec_TCW b g r n s1 s2\<bar> \<le> 1 / 10 ^ 6"
      using TCW_rounding [of b g r n s1 s2] by linarith
  qed
  have A: "\<exists>a. AWEIsh (waterMapping im) p = Some a
            \<and> a = toFloat (spec_AWEIsh b g n s1 s2)
            \<and> \<bar>a - spec_AWEIsh b g n s1 s2\<bar> \<le> \<bar>spec_AWEIsh b g n s1 s2\<bar> / 2 ^ 24
            \<and> (\<bar>spec_AWEIsh b g n s1 s2\<bar> \<le> 16 \<longrightarrow> \<bar>a - spec_AWEIsh b g n s1 s2\<bar> \<le> 1 / 10 ^ 6)"
    using vals(1) e e16 by blast
  have T: "\<exists>t. TCW (waterMapping im) p = Some t
            \<and> \<bar>t - spec_TCW b g r n s1 s2\<bar> \<le> spec_TCW_magnitude b g r n s1 s2 / 2 ^ 22
            \<and> (spec_TCW_magnitude b g r n s1 s2 \<le> 4 \<longrightarrow> \<bar>t - spec_TCW b g r n s1 s2\<bar> \<le> 1 / 10 ^ 6)"
    using vals(2) TCW_rounding [of b g r n s1 s2] t4 by blast
  have M: "if g < 0 \<or> s1 < 0 \<or> g + s1 = 0 then MNDWI (waterMapping im) p = None
           else \<exists>m. MNDWI (waterMapping im) p = Some m \<and> m = toFloat (spec_ratio g s1)
                  \<and> \<bar>m - spec_ratio g s1\<bar> \<le> 1 / 10 ^ 6"
    using vals(3) ratio_rounding [of g s1] by (auto simp: not_less)
  have N: "if n < 0 \<or> r < 0 \<or> n + r = 0 then NDVI (waterMapping im) p = None
           else \<exists>v. NDVI (waterMapping im) p = Some v \<and> v = toFloat (spec_ratio n r)
                  \<and> \<bar>v - spec_ratio n r\<bar> \<le> 1 / 10 ^ 6"
    using vals(4) ratio_rounding [of n r] by (auto simp: not_less)
  from A T M N show ?thesis by (intro conjI)
qed

lemma toFloat_three_fifths: "toFloat (3 / 5) = 5033165 / 8388608"
proof -
  have a: "2 powr (of_int (-1)) \<le> \<bar>3 / 5 :: real\<bar>" by (simp add: powr_minus)
  have b: "\<bar>3 / 5 :: real\<bar> < 2 powr (of_int (-1 + 1))" by simp
  have r: "round_half_even (3 / 5 / 2 powr (of_int (-1 - 23))) = 10066330"
    unfolding round_half_even_def Let_def by (simp add: powr_minus field_simps)
  show ?thesis using toFloat_at [OF a b] r by (simp add: powr_minus)
qed

theorem waterMapping_formulas_witness:
  "blue (L8QAMask (example_L8_scene 0)) 0 = Some 0.05
   \<and> green (L8QAMask (example_L8_scene 0)) 0 = Some 0.08
   \<and> red (L8QAMask (example_L8_scene 0)) 0 = Some 0.06
   \<and> NIR (L8QAMask (example_L8_scene 0)) 0 = Some 0.03
   \<and> SWIR1 (L8QAMask (example_L8_scene 0)) 0 = Some 0.02
   \<and> SWIR2 (L8QAMask (example_L8_scene 0)) 0 = Some 0.01
   \<and> spec_AWEIsh 0.05 0.08 0.03 0.02 0.01 = 0.1725
   \<and> spec_TCW 0.05 0.08 0.06 0.03 0.02 0.01 = 0.034465
   \<and> spec_ratio 0.08 0.02 = 3 / 5
   \<and> MNDWI (waterMapping (L8QAMask (example_L8_scene 0))) 0 = Some (5033165 / 8388608)
   \<and> (\<exists>a. AWEIsh (waterMapping (L8QAMask (example_L8_scene 0))) 0 = Some a
          \<and> \<bar>a - 0.1725\<bar> \<le> 1 / 10 ^ 6)
   \<and> (\<exists>t. TCW (waterMapping (L8QAMask (example_L8_scene 0))) 0 = Some t
          \<and> \<bar>t - 0.034465\<bar> \<le> 1 / 10 ^ 6)
   \<and> (\<exists>v. NDVI (waterMapping (L8QAMask (example_L8_scene 0))) 0 = Some v
          \<and> \<bar>v - (- (1 / 3))\<bar> \<le> 1 / 10 ^ 6)"
proof -
  note main = waterMapping_formulas [OF example_L8_bands [of 0]]
  have sa: "spec_AWEIsh 0.05 0.08 0.03 0.02 0.01 = 0.1725" by (simp add: spec_AWEIsh_def)
  have st: "spec_TCW 0.05 0.08 0.06 0.03 0.02 0.01 = 0.034465" by (simp add: spec_TCW_def)
  have sm: "spec_TCW_magnitude 0.05 0.08 0.06 0.03 0.02 0.01 \<le> 4"
    by (simp add: spec_TCW_magnitude_def)
  have sr: "spec_ratio 0.08 0.02 = 3 / 5" by (simp add: spec_ratio_def)
  have sn: "spec_ratio 0.03 0.06 = - (1 / 3)" by (simp add: spec_ratio_def)
  from main have "\<exists>a. AWEIsh (waterMapping (L8QAMask (example_L8_scene 0))) 0 = Some a
      \<and> (\<bar>spec_AWEIsh 0.05 0.08 0.03 0.02 0.01\<bar> \<le> 16
           \<longrightarrow> \<bar>a - spec_AWEIsh 0.05 0.08 0.03 0.02 0.01\<bar> \<le> 1 / 10 ^ 6)"
    by blast
  then have A: "\<exists>a. AWEIsh (waterMapping (L8QAMask (example_L8_scene 0))) 0 = Some a
          \<and> \<bar>a - 0.1725\<bar> \<le> 1 / 10 ^ 6"
    unfolding sa by simp
  from main have "\<exists>t. TCW (waterMapping (L8QAMask (example_L8_scene 0))) 0 = Some t
      \<and> (spec_TCW_magnitude 0.05 0.08 0.06 0.03 0.02 0.01 \<le> 4
           \<longrightarrow> \<bar>t - spec_TCW 0.05 0.08 0.06 0.03 0.02 0.01\<bar> \<le> 1 / 10 ^ 6)"
    by blast
  then have T: "\<exists>t. TCW (waterMapping (L8QAMask (example_L8_scene 0))) 0 = Some t
          \<and> \<bar>t - 0.034465\<bar> \<le> 1 / 10 ^ 6"
    using sm unfolding st by blast
  from main have "MNDWI (waterMapping (L8QAMask (example_L8_scene 0))) 0
      = Some (toFloat (spec_ratio 0.08 0.02))"
    by simp
  then have M: "MNDWI (waterMapping (L8QAMask (example_L8_scene 0))) 0 = Some (5033165 / 8388608)"
    unfolding sr toFloat_three_fifths .
  from main have "\<exists>v. NDVI (waterMapping (L8QAMask (example_L8_scene 0))) 0 = Some v
          \<and> \<bar>v - spec_ratio 0.03 0.06\<bar> \<le> 1 / 10 ^ 6"
    by simp
  then have N: "\<exists>v. NDVI (waterMapping (L8QAMask (example_L8_scene 0))) 0 = Some v
          \<and> \<bar>v - (- (1 / 3))\<bar> \<le> 1 / 10 ^ 6"
    unfolding sn .
  from example_L8_bands [of 0] sa st sr M A T N show ?thesis by (intro conjI)
qed

lemma example_dark_pixel_bands:
  "blue example_dark_pixel 0 = Some 391.11589" "green example_dark_pixel 0 = Some 301.58907"
  "red example_dark_pixel 0 = Some 195.30094" "NIR example_dark_pixel 0 = Some 99.8299"
  "SWIR1 example_dark_pixel 0 = Some (-0.0015)" "SWIR2 example_dark_pixel 0 = Some (-0.0012)"
  by (simp_all add: example_dark_pixel_def harmonize_bands constant_img_def)

lemma toFloat_dark_AWEIsh: "toFloat (995346265 / 1000000) = 16307753 / 16384"
proof -
  have a: "2 powr (of_int 9) \<le> \<bar>995346265 / 1000000 :: real\<bar>" by simp
  have b: "\<bar>995346265 / 1000000 :: real\<bar> < 2 powr (of_int (9 + 1))" by simp
  have r: "round_half_even (995346265 / 1000000 / 2 powr (of_int (9 - 23))) = 16307753"
    unfolding round_half_even_def Let_def by (simp add: powr_minus field_simps)
  show ?thesis using toFloat_at [OF a b] r by (simp add: powr_minus)
qed

text \<open>
  As the claim states it, with every index within \<open>1e-6\<close> of its closed form and a ratio
  without a value only where its denominator is zero, it fails at the dark Sentinel-2
  pixel: SWIR1 is harmonized to -0.0015, so MNDWI has no value although its denominator
  is 301.58757; and the closed-form AWEIsh is 995.346265, which the cast to 32-bit
  floating point moves to 16307753 / 16384, further than \<open>1e-5\<close> away.
\<close>

theorem waterMapping_negative_counterexample:
  "blue example_dark_pixel 0 = Some 391.11589
   \<and> green example_dark_pixel 0 = Some 301.58907
   \<and> NIR example_dark_pixel 0 = Some 99.8299
   \<and> SWIR1 example_dark_pixel 0 = Some (-0.0015)
   \<and> SWIR2 example_dark_pixel 0 = Some (-0.0012)
   \<and> (301.58907 :: real) + (-0.0015) \<noteq> 0
   \<and> MNDWI (waterMapping example_dark_pixel) 0 = None
   \<and> spec_AWEIsh 391.11589 301.58907 99.8299 (-0.0015) (-0.0012) = 995.346265
   \<and> AWEIsh (waterMapping example_dark_pixel) 0 = Some (16307753 / 16384)
   \<and> 1 / 10 ^ 5 < \<bar>16307753 / 16384 - spec_AWEIsh 391.11589 301.58907 99.8299 (-0.0015) (-0.0012)\<bar>"
proof -
  note vals = waterMapping_values [OF example_dark_pixel_bands]
  have sa: "spec_AWEIsh 391.11589 301.58907 99.8299 (-0.0015) (-0.0012) = 995346265 / 1000000"
    by (simp add: spec_AWEIsh_def)
  have M: "MNDWI (waterMapping example_dark_pixel) 0 = None" using vals(3) by simp
  have A: "AWEIsh (waterMapping example_dark_pixel) 0 = Some (16307753 / 16384)"
    using vals(1) unfolding sa toFloat_dark_AWEIsh .
  have sa': "spec_AWEIsh 391.11589 301.58907 99.8299 (-0.0015) (-0.0012) = 995.346265"
    unfolding sa by simp
  have far: "1 / 10 ^ 5
      < \<bar>16307753 / 16384 - spec_AWEIsh 391.11589 301.58907 99.8299 (-0.0015) (-0.0012)\<bar>"
    unfolding sa by simp
  have ne: "(301.58907 :: real) + (-0.0015) \<noteq> 0" by simp
  from example_dark_pixel_bands(1,2,4,5,6) ne M sa' A far show ?thesis by (intro conjI)
qed

section \<open>The months of the optical query\<close>

lemma L8QAMask_time: "time_start (L8QAMask x) = time_start x"
  by (simp add: L8QAMask_def Let_def)

lemma S2QAMask_time: "time_start (S2QAMask x) = time_start x"
  by (simp add: S2QAMask_def Let_def)

lemma harmonize_time: "time_start (harmonize x) = time_start x"
  by (simp add: harmonize_def Let_def)


text \<open>
  Claim C9. Every optical image of the query collections of both scripts, Landsat 8 or
  Sentinel-2, was acquired in a calendar month from March to November: a scene of December,
  January or February is left out even when its date lies in the query range.
\<close>

theorem optical_query_months:
  assumes "im \<in> set (L8S2 inp) \<or> im \<in> set (L8S2_classify inp)"
  shows "3 \<le> month_of (time_start im) \<and> month_of (time_start im) \<le> 11"
  using assms
  by (auto simp: L8S2_def L8S2_classify_def L8_def S2_def L8_classify_def S2_classify_def
      calendarRange_month_def L8QAMask_time S2QAMask_time harmonize_time)

theorem optical_query_months_witness:
  "L8QAMask (example_L8_scene (ee_Date (2021, 6, 1))) \<in> set (L8S2 example_inputs)
   \<and> month_of (time_start (L8QAMask (example_L8_scene (ee_Date (2021, 6, 1))))) = 6
   \<and> example_L8_scene (ee_Date (2021, 1, 10)) \<in> set (LANDSAT_LC08_C02_T1_L2 example_inputs)
   \<and> start_date example_inputs \<le> ee_Date (2021, 1, 10)
   \<and> ee_Date (2021, 1, 10) < end_date example_inputs
   \<and> month_of (ee_Date (2021, 1, 10)) = 1
   \<and> L8QAMask (example_L8_scene (ee_Date (2021, 1, 10))) \<notin> set (L8S2 example_inputs)"
proof -
  have m: "L8QAMask (example_L8_scene (ee_Date (2021, 6, 1))) \<in> set (L8S2 example_inputs)"
    by (simp add: L8S2_def example_L8)
  have t: "\<And>t. time_start (L8QAMask (example_L8_scene t)) = t"
    by (simp add: L8QAMask_time example_L8_scene_def)
  have jan: "month_of (ee_Date (2021, 1, 10)) = 1" by (simp add: example_dates example_months)
  have "L8QAMask (example_L8_scene (ee_Date (2021, 1, 10))) \<notin> set (L8S2 example_inputs)"
  proof
    assume "L8QAMask (example_L8_scene (ee_Date (2021, 1, 10))) \<in> set (L8S2 example_inputs)"
    then have "3 \<le> month_of (time_start (L8QAMask (example_L8_scene (ee_Date (2021, 1, 10)))))"
      using optical_query_months [of _ example_inputs] by blast
    with t jan show False by simp
  qed
  moreover from optical_query_months [of _ example_inputs] m
  have "3 \<le> month_of (time_start (L8QAMask (example_L8_scene (ee_Date (2021, 6, 1)))))" by blast
  ultimately show ?thesis using m
    by (simp add: t example_dates example_months example_inputs_def)
qed


section \<open>The size of the forests\<close>

lemma example_L8training:
  "L8training example_inputs (ee_Date (2018, 1, 25)) (ee_Date (2018, 2, 7))
     = [L8QAMask (example_L8_scene (ee_Date (2018, 1, 28)))]"
  "L8training example_inputs (ee_Date (2018, 1, 27)) (ee_Date (2018, 2, 2))
     = [L8QAMask (example_L8_scene (ee_Date (2018, 1, 28)))]"
  by (simp_all add: L8training_def example_inputs_def filterBounds_def filterDate_def
      example_L8_scene_def example_dates training_dates)

lemma optical_training_succeeds:
  assumes "L8training inp t0 t1 \<noteq> []"
  shows "\<exists>samples. optical_training inp bands t0 t1 = Inr samples"
  using assms by (simp add: optical_training_def mosaic_index_def Let_def)

lemma train_optical_succeeds:
  assumes "L8training inp t0 t1 \<noteq> []"
  shows "\<exists>samples. train_optical inp bands t0 t1
           = Inr (train (forest_fit inp) (smileRandomForest 500) samples ''water'' bands)"
  using optical_training_succeeds [OF assms, of bands] by (auto simp: train_optical_def)

lemma train_optical_trees: "train_optical inp bands t0 t1 = Inr c \<Longrightarrow> numberOfTrees c = 500"
  by (auto simp: train_optical_def train_def smileRandomForest_def split: sum.splits)

lemma train_radar_trees: "numberOfTrees (train_radar inp t0 t1) = 500"
  by (simp add: train_radar_def train_def smileRandomForest_def)

text \<open>
  Claim C7, as amended. Every forest of the scripts has 500 trees, whatever the inputs of
  the run (the catalogues, the labelled points, the area of interest and the dates that
  \<open>classifyWater\<close> takes): the optical and the radar forest of constructTimeSeries, the
  optical and the radar forest of \<open>SWIFT_classify\<close>, and the radar forest of the accuracy
  script. The size is the literal 500 at each of the five places.
\<close>

theorem forest_size:
  "(\<forall>c. optical_classifier inp = Inr c \<longrightarrow> numberOfTrees c = 500)
   \<and> numberOfTrees (S1_classifier inp) = 500
   \<and> (\<forall>c. optical_classifier_classify inp = Inr c \<longrightarrow> numberOfTrees c = 500)
   \<and> numberOfTrees (S1_classifier_classify inp) = 500
   \<and> numberOfTrees (classifier_acc inp) = 500"
  using train_optical_trees [of inp optical_bands]
    train_optical_trees [of inp optical_bands_classify]
  by (simp add: optical_classifier_def optical_classifier_classify_def S1_classifier_def
      S1_classifier_classify_def train_radar_trees classifier_acc_def train_def
      smileRandomForest_def)

theorem forest_size_witness:
  "(\<exists>c. optical_classifier example_inputs = Inr c \<and> numberOfTrees c = 500)
   \<and> numberOfTrees (S1_classifier example_inputs) = 500
   \<and> (\<exists>c. optical_classifier_classify example_inputs = Inr c \<and> numberOfTrees c = 500)
   \<and> numberOfTrees (S1_classifier_classify example_inputs) = 500
   \<and> numberOfTrees (classifier_acc example_inputs) = 500"
proof -
  obtain s1 where a: "optical_classifier example_inputs
      = Inr (train (forest_fit example_inputs) (smileRandomForest 500) s1 ''water'' optical_bands)"
    using train_optical_succeeds [of example_inputs "ee_Date (2018, 1, 25)" "ee_Date (2018, 2, 7)"
        optical_bands]
    by (auto simp: optical_classifier_def example_L8training)
  obtain s2 where b: "optical_classifier_classify example_inputs
      = Inr (train (forest_fit example_inputs) (smileRandomForest 500) s2 ''water''
               optical_bands_classify)"
    using train_optical_succeeds [of example_inputs "ee_Date (2018, 1, 27)" "ee_Date (2018, 2, 2)"
        optical_bands_classify]
    by (auto simp: optical_classifier_classify_def example_L8training)
  from forest_size [of example_inputs] a b show ?thesis by simp
qed

text \<open>
  The size is not configurable: no two runs of a script train forests of different sizes,
  whatever their inputs.
\<close>

theorem forest_size_not_configurable:
  "\<not> (\<exists>inp inp' c c'.
        (optical_classifier inp = Inr c \<and> optical_classifier inp' = Inr c'
           \<and> numberOfTrees c \<noteq> numberOfTrees c')
        \<or> numberOfTrees (S1_classifier inp) \<noteq> numberOfTrees (S1_classifier inp')
        \<or> (optical_classifier_classify inp = Inr c \<and> optical_classifier_classify inp' = Inr c'
           \<and> numberOfTrees c \<noteq> numberOfTrees c')
        \<or> numberOfTrees (S1_classifier_classify inp) \<noteq> numberOfTrees (S1_classifier_classify inp')
        \<or> numberOfTrees (classifier_acc inp) \<noteq> numberOfTrees (classifier_acc inp'))"
  using train_optical_trees
  by (auto simp: optical_classifier_def optical_classifier_classify_def S1_classifier_def
      S1_classifier_classify_def train_radar_trees classifier_acc_def train_def
      smileRandomForest_def)

section \<open>The median composite\<close>









section \<open>Collections whose mapping can fail\<close>

lemma map_result_Inr_iff:
  "map_result f xs = Inr ys \<longleftrightarrow>
     length ys = length xs \<and> (\<forall>i < length xs. f (xs ! i) = Inr (ys ! i))"
proof (induction xs arbitrary: ys)
  case Nil
  then show ?case by auto
next
  case (Cons x xs)
  show ?case
  proof (cases ys)
    case Nil
    then show ?thesis by (auto split: sum.splits)
  next
    case (Cons y zs)
    have "(\<forall>i < Suc (length xs). f ((x # xs) ! i) = Inr ((y # zs) ! i)) \<longleftrightarrow>
          f x = Inr y \<and> (\<forall>i < length xs. f (xs ! i) = Inr (zs ! i))"
      by (auto simp: less_Suc_eq_0_disj)
    with Cons Cons.IH [of zs] show ?thesis
      by (auto split: sum.splits)
  qed
qed



lemma map_result_succeeds:
  assumes "\<And>x. x \<in> set xs \<Longrightarrow> \<exists>y. f x = Inr y"
  shows "\<exists>ys. map_result f xs = Inr ys"
  using assms
proof (induction xs)
  case Nil
  then show ?case by simp
next
  case (Cons x xs)
  then obtain y ys where "f x = Inr y" "map_result f xs = Inr ys" by (meson list.set_intros)
  then show ?case by simp
qed

lemma length_one: "length xs = Suc 0 \<Longrightarrow> \<exists>x. xs = [x]"
  by (cases xs) auto

lemma map_result_total: "map_result (\<lambda>x. Inr (f x)) xs = Inr (map f xs)"
  by (induction xs) simp_all


section \<open>Labels and medians\<close>









lemma collection_classify_Inr:
  "collection_classify inp = Inr c \<longleftrightarrow>
     (\<exists>optical s1. L8S2_classified_classify inp = Inr optical
        \<and> S1_classified_classify inp = Inr s1
        \<and> c = map (\<lambda>im. im\<lparr> classification := clip (classification im) (AOI inp) \<rparr>)
                  (optical @ s1))"
  by (auto simp: collection_classify_def split: sum.splits)







section \<open>Sums over a region\<close>


lemma sum_list_all_zero: "(\<And>x. x \<in> set xs \<Longrightarrow> f x = 0) \<Longrightarrow> sum_list (map f xs) = (0::real)"
  by (induction xs) auto

lemma reduceRegion_sum_zero:
  assumes "reduceRegion_sum band g n = Inr a" and "\<forall>p \<in> set g. \<forall>v. band p = Some v \<longrightarrow> v = 0"
  shows "a = Some 0"
proof -
  have "sum_list (map (\<lambda>p. case band p of None \<Rightarrow> 0 | Some v \<Rightarrow> v) (remdups g)) = 0"
    using assms(2) by (intro sum_list_all_zero) (auto split: option.splits)
  with assms(1) show ?thesis
    by (auto simp: reduceRegion_sum_def Let_def split: if_splits)
qed

lemma reduceRegion_sum_succeeds:
  "length (remdups g) \<le> n \<Longrightarrow> \<exists>a. reduceRegion_sum band g n = Inr a"
  by (simp add: reduceRegion_sum_def Let_def)

lemma reduce_all_masked:
  assumes "\<forall>p \<in> set g. band p = None" and "length (remdups g) \<le> n"
  shows "reduceRegion_sum band g n = Inr (Some 0)"
proof -
  have "sum_list (map (\<lambda>p. case band p of None \<Rightarrow> 0 | Some v \<Rightarrow> v) (remdups g)) = 0"
    using assms(1) by (intro sum_list_all_zero) auto
  with assms(2) show ?thesis by (simp add: reduceRegion_sum_def Let_def)
qed



section \<open>The bands along the pipeline\<close>












subsection \<open>When the pipeline returns\<close>


lemma classify_with_trained: "classify_with (Inr c) = (\<lambda>im. Inr (classify_optical c im))"
  by (simp add: classify_with_def fun_eq_iff)

lemma L8S2_classified_trained:
  assumes "optical_classifier inp = Inr oc"
  shows "L8S2_classified inp = Inr (map (classify_optical oc) (L8S2_ind inp))"
  by (simp add: L8S2_classified_def assms classify_with_trained map_result_total)

lemma L8S2_classified_classify_trained:
  assumes "optical_classifier_classify inp = Inr oc"
  shows "L8S2_classified_classify inp
         = Inr (map (classify_optical oc) (map waterMapping (L8S2_classify inp)))"
  by (simp add: L8S2_classified_classify_def assms classify_with_trained map_result_total)






section \<open>The example queries\<close>

lemma query_dates:
  "ee_Date (2021, 5, 30) = 1622332800000" "ee_Date (2021, 6, 4) = 1622764800000"
  by code_simp+

lemma example_query_fields:
  "start_date example_query = 1622332800000" "end_date example_query = 1622764800000"
  "AOI example_query = [0, 1]" "pixelArea example_query = (\<lambda>p. 900)"
  "NOAA_CFSV2_FOR6H example_query = [example_wind_scene 1622505600000 0 0]"
  "convolve_boxcar example_query = (\<lambda>r. r)"
  "forest_fit example_query = example_fit"
  "MERIT_Hydro_hnd example_query = constant_img 5"
  "LANDSAT_LC08_C02_T1_L2 example_query =
     [example_L8_scene 1517097600000, example_L8_scene 1610236800000, example_L8_scene 1622505600000]"
  "COPERNICUS_S2_SR_HARMONIZED example_query = [example_S2_scene 1622592000000]"
  "COPERNICUS_S2 example_query = [example_S2_scene 1622592000000]"
  "s1_preproc example_query = (\<lambda>prm. [example_radar_scene (START_DATE prm)])"
  "water example_query = [0]"
  by (simp_all add: example_query_def example_inputs_def query_dates example_dates)



text \<open>
  The Landsat scene of 2018-01-28 lies in the training windows of both scripts, so the
  optical forests of the example runs are trained.
\<close>

lemma example_optical_classifier:
  assumes "LANDSAT_LC08_C02_T1_L2 inp =
     [example_L8_scene 1517097600000, example_L8_scene 1610236800000, example_L8_scene 1622505600000]"
    and "water inp = [0]"
  shows "\<exists>c s. optical_classifier inp = Inr c \<and> votes_water c = forest_fit inp 500 s"
    and "\<exists>c s. optical_classifier_classify inp = Inr c \<and> votes_water c = forest_fit inp 500 s"
proof -
  have a: "L8training inp (ee_Date (2018, 1, 25)) (ee_Date (2018, 2, 7)) \<noteq> []"
    and b: "L8training inp (ee_Date (2018, 1, 27)) (ee_Date (2018, 2, 2)) \<noteq> []"
    by (simp_all add: L8training_def assms filterBounds_def filterDate_def example_L8_scene_def
        training_dates)
  from train_optical_succeeds [OF a, of optical_bands]
  show "\<exists>c s. optical_classifier inp = Inr c \<and> votes_water c = forest_fit inp 500 s"
    by (auto simp: optical_classifier_def train_def smileRandomForest_def)
  from train_optical_succeeds [OF b, of optical_bands_classify]
  show "\<exists>c s. optical_classifier_classify inp = Inr c \<and> votes_water c = forest_fit inp 500 s"
    by (auto simp: optical_classifier_classify_def train_def smileRandomForest_def)
qed





lemma example_month_step: "advance_month 1622332800000 = 1625011200000"
  by code_simp



section \<open>Areas are never negative\<close>




section \<open>Water pixels and the reported area\<close>

lemma example_query_L8S2_classify:
  "L8S2_classify example_query =
     [L8QAMask (example_L8_scene 1622505600000), harmonize (S2QAMask (example_S2_scene 1622592000000))]"
  by (auto simp add: L8S2_classify_def L8_classify_def S2_classify_def example_query_fields
      filterBounds_def filterDate_def calendarRange_month_def example_L8_scene_def
      example_S2_scene_def example_months)

lemma example_query_votes:
  "votes_water (S1_classifier_classify example_query) [x, y, z] \<longleftrightarrow> x < -18"
  by (simp add: S1_classifier_classify_def train_radar_def train_def smileRandomForest_def
      example_query_fields example_fit_def)

text \<open>
  A forest fitted by \<open>example_fit\<close> labels the optical example scenes as water: their
  MNDWI is the rounded value of a positive ratio.
\<close>

lemma example_L8_water:
  assumes "votes_water c = example_fit n s"
  shows "classification (classify_optical c (waterMapping (L8QAMask (example_L8_scene t)))) p
         = Some 1"
  by (simp add: classify_optical_def waterMapping_def L8QAMask_def example_L8_scene_def
      L8_qa_mask_def updateMask_def divide_const_def constant_img_def Let_def
      normalizedDifference_def AWEIsh_expression_def TCW_expression_def toFloat_img_def
      assms example_fit_def toFloat_pos)

lemma example_S2_water:
  assumes "votes_water c = example_fit n s"
  shows "classification (classify_optical c
           (waterMapping (harmonize (S2QAMask (example_S2_scene t))))) p = Some 1"
  by (simp add: classify_optical_def waterMapping_def harmonize_def S2QAMask_def example_S2_scene_def
      updateMask_def lt_def add_def multiply_def lift2_def constant_img_def Let_def GAIN_def BIAS_def
      normalizedDifference_def AWEIsh_expression_def TCW_expression_def toFloat_img_def
      assms example_fit_def toFloat_pos)

lemma example_S1_water:
  "classification (smooth example_query
      (classify_radar (S1_classifier_classify example_query) (example_radar_scene t))) p = Some 1"
  by (simp add: smooth_def classify_radar_def example_radar_scene_def gt_def constant_img_def
      example_query_fields example_query_votes)

lemma example_query_windMask: "windMask example_query im = Inr im"
  by (simp add: windMask_def example_query_fields filterDate_def example_wind_scene_def max_band_def
      pixel_values_def List.map_filter_simps pow2_def add_def lift2_def sqrt_img_def
      multiply_const_def lt_def updateMask_def constant_img_def Let_def)

lemma example_query_collection_classify:
  "\<exists>x1 x2 x3. collection_classify example_query = Inr [x1, x2, x3]
     \<and> (\<forall>x \<in> {x1, x2, x3}. \<forall>p. classification x p = (if p \<in> {0, 1} then Some 1 else None))"
proof -
  obtain oc s where oc: "optical_classifier_classify example_query = Inr oc"
    and v: "votes_water oc = example_fit 500 s"
    using example_optical_classifier(2) [of example_query] by (auto simp: example_query_fields)
  show ?thesis
    by (simp add: collection_classify_def S1_classified_classify_def S1_cf_classify_def
        S1_preprocess_def L8S2_classified_classify_trained [OF oc] example_query_L8S2_classify
        example_query_windMask example_L8_water [OF v] example_S2_water [OF v] example_S1_water
        clip_def example_query_fields)
qed


lemma example_query_listMap_classify: "listMap_classify example_query = [1622332800000]"
  by (simp add: listMap_classify_def weekDifference_def advance_week_def millis_per_day_def
      sequence_def example_query_fields)

lemma example_query_listMap: "listMap example_query = [1622332800000]"
  by (simp add: listMap_def monthDifference_def example_query_fields example_month_step sequence_def)

lemma median_three_ones: "median [1, 1, 1] = Some 1"
  by (simp add: median_def Let_def)

lemma all_water_median:
  assumes "classification x1 p = Some 1" and "classification x2 p = Some 1"
    and "classification x3 p = Some 1"
  shows "median_band [classification x1, classification x2, classification x3] p = Some 1"
  using assms by (simp add: median_band_def pixel_values_def List.map_filter_simps median_three_ones)

lemma all_water_masked:
  assumes "b p = Some 1"
  shows "updateMask b (lt b 1) p = None"
  using assms by (simp add: updateMask_def lt_def)

lemma example_query_L8S2:
  "L8S2 example_query =
     [L8QAMask (example_L8_scene 1622505600000), harmonize (S2QAMask (example_S2_scene 1622592000000))]"
  by (auto simp add: L8S2_def L8_def S2_def example_query_fields
      filterBounds_def filterDate_def calendarRange_month_def example_L8_scene_def
      example_S2_scene_def example_months)

lemma example_query_votes_cts:
  "votes_water (S1_classifier example_query) [x, y, z] \<longleftrightarrow> x < -18"
  by (simp add: S1_classifier_def train_radar_def train_def smileRandomForest_def
      example_query_fields example_fit_def)

lemma example_S1_water_cts:
  "classification (smooth example_query
      (classify_radar (S1_classifier example_query) (example_radar_scene t))) p = Some 1"
  by (simp add: smooth_def classify_radar_def example_radar_scene_def gt_def constant_img_def
      example_query_fields example_query_votes_cts)

lemma example_query_collection:
  "\<exists>x1 x2 x3. collection example_query = Inr [x1, x2, x3]
     \<and> (\<forall>x \<in> {x1, x2, x3}. \<forall>p. classification x p = Some 1)"
proof -
  obtain oc s where oc: "optical_classifier example_query = Inr oc"
    and v: "votes_water oc = example_fit 500 s"
    using example_optical_classifier(1) [of example_query] by (auto simp: example_query_fields)
  show ?thesis
    by (simp add: collection_def S1_classified_def S1_cf_def
        S1_preprocess_def L8S2_classified_trained [OF oc] L8S2_ind_def example_query_L8S2
        example_query_windMask example_L8_water [OF v] example_S2_water [OF v]
        example_S1_water_cts example_query_fields)
qed

lemma spec_area_two_pixels:
  assumes "c 0 = Some 1" and "c (Suc 0) = Some 1"
  shows "spec_water_area c (\<lambda>p. 900) [0, Suc 0] = 1800"
  using assms by (simp add: spec_water_area_def)


text \<open>
  Whatever the labels of a composite are, 0 or 1, the area \<open>SWIFT_classify\<close> computes after
  \<open>maskNonWater\<close> is 0.
\<close>

lemma maskNonWater_area_of_labels:
  assumes m: "classification_band m = Some c"
    and labels: "\<forall>p \<in> set (AOI inp). \<forall>v. c p = Some v \<longrightarrow> v = 0 \<or> v = 1"
    and size: "length (remdups (AOI inp)) \<le> 10 ^ 13"
  shows "\<exists>w r. maskNonWater m = Inr w \<and> calculateWaterArea_AOI_classify inp w = Inr r
           \<and> area r = Some 0"
proof -
  let ?b = "updateMask c (lt c 1)"
  let ?w = "m\<lparr> classification_band := Some ?b \<rparr>"
  let ?wa = "multiply ?b (\<lambda>p. Some (pixelArea inp p))"
  have mk: "maskNonWater m = Inr ?w"
    by (simp add: maskNonWater_def select_classification_def m)
  from size obtain a where a: "reduceRegion_sum ?wa (AOI inp) (10 ^ 13) = Inr a"
    using reduceRegion_sum_succeeds by blast
  have "\<forall>p \<in> set (AOI inp). \<forall>v. ?wa p = Some v \<longrightarrow> v = 0"
  proof (intro ballI allI impI)
    fix p v
    assume p: "p \<in> set (AOI inp)" and "?wa p = Some v"
    then obtain x where x: "?b p = Some x" "v = x * pixelArea inp p"
      by (auto simp: multiply_def lift2_def split: option.splits)
    from x(1) have "c p = Some x" "x < 1"
      by (auto simp: updateMask_def lt_def split: option.splits if_splits)
    with labels p have "x = 0" by auto
    with x(2) show "v = 0" by simp
  qed
  with a have "a = Some 0" by (rule reduceRegion_sum_zero)
  with a have "calculateWaterArea_AOI_classify inp ?w =
      Inr \<lparr> mosaic = ?w, waterArea = ?wa, area = Some 0,
            date_formatted = format_YMD (system_time_start ?w) \<rparr>"
    by (simp add: calculateWaterArea_AOI_classify_def select_classification_def Let_def)
  with mk show ?thesis by (metis area_image.select_convs(3))
qed

text \<open>
  Claim C1 asks for the sum of the pixel areas over the pixels of the region whose label
  is 1. The scripts do not compute it: \<open>maskNonWater\<close> keeps the pixels whose label is
  below 1 and masks the pixels labelled water, so no water pixel reaches the sum. In the
  example query, whose catalogue holds a Landsat scene in the training windows so that
  both forests are trained, both pixels of the AOI are water in the composite of either
  script, 1800 square metres by the specification, and the area either script reports
  is 0. The optical forests of both scripts are trained in this run.
\<close>

theorem water_pixels_masked_before_area:
  "(\<exists>m c. weeklyMosaics example_query = Inr [m] \<and> classification_band m = Some c
        \<and> c 0 = Some 1 \<and> c 1 = Some 1
        \<and> spec_water_area c (pixelArea example_query) (AOI example_query) = 1800)
   \<and> (\<exists>w b g r. classifyWater example_query = Inr (w, b, g, r) \<and> area w = Some 0)
   \<and> (\<exists>m c. mosaics example_query = Inr [m] \<and> classification_band m = Some c
        \<and> c 0 = Some 1 \<and> c 1 = Some 1
        \<and> spec_water_area c (pixelArea example_query) (AOI example_query) = 1800)
   \<and> (\<exists>r. waterArea_AOI example_query = Inr [r] \<and> area r = Some 0)
   \<and> (\<exists>oc. optical_classifier example_query = Inr oc)
   \<and> (\<exists>oc. optical_classifier_classify example_query = Inr oc)"
proof (intro conjI)
  obtain x1 x2 x3 where col: "collection_classify example_query = Inr [x1, x2, x3]"
    and lab: "\<forall>x \<in> {x1, x2, x3}. \<forall>p. classification x p = (if p \<in> {0, 1} then Some 1 else None)"
    using example_query_collection_classify by blast
  let ?c = "median_band (map classification [x1, x2, x3])"
  let ?m = "mosaicByDate [x1, x2, x3] 1622332800000"
  have wm: "weeklyMosaics example_query = Inr [?m]"
    by (simp add: weeklyMosaics_def col example_query_listMap_classify)
  have band: "classification_band ?m = Some ?c"
    by (simp add: mosaicByDate_def median_collection_def)
  have c0: "?c 0 = Some 1" and c1: "?c 1 = Some 1"
    using lab by (simp_all add: all_water_median)
  have spec: "spec_water_area ?c (pixelArea example_query) (AOI example_query) = 1800"
    using c0 c1 by (simp add: example_query_fields spec_area_two_pixels)
  from wm band c0 c1 spec
  show "\<exists>m c. weeklyMosaics example_query = Inr [m] \<and> classification_band m = Some c
        \<and> c 0 = Some 1 \<and> c 1 = Some 1
        \<and> spec_water_area c (pixelArea example_query) (AOI example_query) = 1800"
    by blast
  let ?w = "?m\<lparr> classification_band := Some (updateMask ?c (lt ?c 1)) \<rparr>"
  have mk: "maskNonWater ?m = Inr ?w"
    by (simp add: maskNonWater_def select_classification_def band)
  have wc: "water_collection_classify example_query = Inr [?w]"
    by (simp add: water_collection_classify_def wm mk)
  have masked: "\<forall>p \<in> set [0, 1]. multiply (updateMask ?c (lt ?c 1)) (\<lambda>p. Some (900 :: real)) p = None"
    using c0 c1 by (auto simp: multiply_def lift2_def all_water_masked)
  have "\<exists>r. calculateWaterArea_AOI_classify example_query ?w = Inr r \<and> area r = Some 0"
    using reduce_all_masked [OF masked, of "10 ^ 13"]
    by (simp add: calculateWaterArea_AOI_classify_def select_classification_def Let_def
        example_query_fields)
  then obtain r where r: "calculateWaterArea_AOI_classify example_query ?w = Inr r" "area r = Some 0"
    by blast
  have "waterArea_AOI_classify example_query = Inr [r]"
    using r(1) by (simp add: waterArea_AOI_classify_def wc)
  with r(2) show "\<exists>w b g r. classifyWater example_query = Inr (w, b, g, r) \<and> area w = Some 0"
    by (simp add: classifyWater_def first_image_def example_query_L8S2_classify)
next
  obtain x1 x2 x3 where col: "collection example_query = Inr [x1, x2, x3]"
    and lab: "\<forall>x \<in> {x1, x2, x3}. \<forall>p. classification x p = Some 1"
    using example_query_collection by blast
  let ?c = "median_band (map classification [x1, x2, x3])"
  let ?m = "mosaicByDate [x1, x2, x3] 1622332800000"
  have ms: "mosaics example_query = Inr [?m]"
    by (simp add: mosaics_def col example_query_listMap)
  have band: "classification_band ?m = Some ?c"
    by (simp add: mosaicByDate_def median_collection_def)
  have c0: "?c 0 = Some 1" and c1: "?c 1 = Some 1"
    using lab by (simp_all add: all_water_median)
  have spec: "spec_water_area ?c (pixelArea example_query) (AOI example_query) = 1800"
    using c0 c1 by (simp add: example_query_fields spec_area_two_pixels)
  from ms band c0 c1 spec
  show "\<exists>m c. mosaics example_query = Inr [m] \<and> classification_band m = Some c
        \<and> c 0 = Some 1 \<and> c 1 = Some 1
        \<and> spec_water_area c (pixelArea example_query) (AOI example_query) = 1800"
    by blast
  let ?b = "updateMask (updateMask ?c (lt ?c 1)) (HANDmask example_query)"
  let ?w = "?m\<lparr> classification_band := Some ?b \<rparr>"
  have mk: "maskNonWater ?m = Inr (?m\<lparr> classification_band := Some (updateMask ?c (lt ?c 1)) \<rparr>)"
    by (simp add: maskNonWater_def select_classification_def band)
  have wmk: "water_masked example_query = Inr [?w]"
    by (simp add: water_masked_def water_collection_def ms mk)
  have "\<forall>p \<in> set [0, 1]. updateMask ?c (lt ?c 1) p = None"
    using c0 c1 by (auto simp: all_water_masked)
  then have masked: "\<forall>p \<in> set [0, 1].
      multiply ?b (divide_const (\<lambda>p. Some (900 :: real)) 1000000) p = None"
    by (auto simp: multiply_def lift2_def updateMask_def split: option.splits)
  have "\<exists>r. calculateWaterArea_AOI example_query ?w = Inr r \<and> area r = Some 0"
    using reduce_all_masked [OF masked, of "10 ^ 13"]
    by (simp add: calculateWaterArea_AOI_def select_classification_def Let_def
        example_query_fields)
  then obtain r where r: "calculateWaterArea_AOI example_query ?w = Inr r" "area r = Some 0"
    by blast
  have "waterArea_AOI example_query = Inr [r]"
    using r(1) by (simp add: waterArea_AOI_def wmk)
  with r(2) show "\<exists>r. waterArea_AOI example_query = Inr [r] \<and> area r = Some 0"
    by blast
next
  show "\<exists>oc. optical_classifier example_query = Inr oc"
    using example_optical_classifier(1) [of example_query] by (auto simp: example_query_fields)
  show "\<exists>oc. optical_classifier_classify example_query = Inr oc"
    using example_optical_classifier(2) [of example_query] by (auto simp: example_query_fields)
qed


section \<open>A tie in the composite and the reported area\<close>









section \<open>One composite for every period\<close>

lemma example_two_weeks_fields:
  "start_date example_two_weeks = 1622505600000" "end_date example_two_weeks = 1623715200000"
  "AOI example_two_weeks = [0, 1]"
  "NOAA_CFSV2_FOR6H example_two_weeks = [example_wind_scene 1622592000000 0 0]"
  "convolve_boxcar example_two_weeks = (\<lambda>r. r)"
  "forest_fit example_two_weeks = example_fit"
  "LANDSAT_LC08_C02_T1_L2 example_two_weeks = []"
  "COPERNICUS_S2_SR_HARMONIZED example_two_weeks = []"
  "COPERNICUS_S2 example_two_weeks = []"
  "s1_preproc example_two_weeks = (\<lambda>prm. [example_radar_scene 1622592000000,
                                 example_land_scene 1623196800000,
                                 example_land_scene 1623283200000])"
  by (simp_all add: example_two_weeks_def example_inputs_def)

lemma example_two_weeks_windMask: "windMask example_two_weeks im = Inr im"
  by (simp add: windMask_def example_two_weeks_fields filterDate_def example_wind_scene_def
      max_band_def pixel_values_def List.map_filter_simps pow2_def add_def lift2_def sqrt_img_def
      multiply_const_def lt_def updateMask_def constant_img_def Let_def)

lemma example_two_weeks_votes:
  "votes_water (S1_classifier_classify example_two_weeks) [x, y, z] \<longleftrightarrow> x < -18"
  by (simp add: S1_classifier_classify_def train_radar_def train_def smileRandomForest_def
      example_two_weeks_fields example_fit_def)

lemma example_two_weeks_listMap:
  "listMap_classify example_two_weeks = [1622505600000, 1623110400000, 1623715200000]"
  "weekDifference example_two_weeks = 604800000"
  by (simp_all add: listMap_classify_def weekDifference_def advance_week_def millis_per_day_def
      sequence_def example_two_weeks_fields upt_rec)

lemma example_two_weeks_collection:
  "\<exists>x1 x2 x3. collection_classify example_two_weeks = Inr [x1, x2, x3]
     \<and> time_start x1 = 1622592000000 \<and> time_start x2 = 1623196800000
     \<and> time_start x3 = 1623283200000
     \<and> classification x1 0 = Some 1 \<and> classification x2 0 = Some 0
     \<and> classification x3 0 = Some 0"
  by (simp add: collection_classify_def S1_classified_classify_def S1_cf_classify_def
      S1_preprocess_def L8S2_classified_classify_def L8S2_classify_def L8_classify_def
      S2_classify_def filterBounds_def filterDate_def calendarRange_month_def
      example_two_weeks_windMask example_two_weeks_fields smooth_def classify_radar_def
      example_radar_scene_def example_land_scene_def gt_def constant_img_def clip_def
      example_two_weeks_votes)

lemma median_one_two_zeros:
  assumes "classification x1 p = Some 1" and "classification x2 p = Some 0"
    and "classification x3 p = Some 0"
  shows "median_band [classification x1, classification x2, classification x3] p = Some 0"
  using assms by (simp add: median_band_def pixel_values_def List.map_filter_simps median_def Let_def)


lemma mosaicByDate_ignores_date:
  "classification_band (mosaicByDate c d) = classification_band (mosaicByDate c d')"
  "numbImages (mosaicByDate c d) = length c"
  by (simp_all add: mosaicByDate_def)

text \<open>
  Claim C2 asks, for each period, for the median over the images acquired within that
  period and for their number as the image count. The scripts do not compute it:
  \<open>mosaicByDate\<close> reduces the whole merged collection for every date. In the two-week
  example the week of 2021-06-01 holds one image, which labels pixel 0 as water; the
  composite of that week is the composite of the next week, labels pixel 0 as non-water
  and counts 3 images.
\<close>

theorem mosaicByDate_whole_collection:
  "\<exists>m1 m2 m3 c col x.
      weeklyMosaics example_two_weeks = Inr [m1, m2, m3]
      \<and> system_time_start m1 = 1622505600000 \<and> system_time_start m2 = 1623110400000
      \<and> numbImages m1 = 3 \<and> numbImages m2 = 3
      \<and> classification_band m1 = Some c \<and> classification_band m2 = Some c \<and> c 0 = Some 0
      \<and> collection_classify example_two_weeks = Inr col
      \<and> spec_period_images col 1622505600000 (weekDifference example_two_weeks) = [x]
      \<and> classification x 0 = Some 1"
proof -
  obtain x1 x2 x3 where col: "collection_classify example_two_weeks = Inr [x1, x2, x3]"
    and t: "time_start x1 = 1622592000000" "time_start x2 = 1623196800000"
      "time_start x3 = 1623283200000"
    and l: "classification x1 0 = Some 1" "classification x2 0 = Some 0"
      "classification x3 0 = Some 0"
    using example_two_weeks_collection by blast
  let ?c = "median_band [classification x1, classification x2, classification x3]"
  have wm: "weeklyMosaics example_two_weeks =
      Inr [mosaicByDate [x1, x2, x3] 1622505600000, mosaicByDate [x1, x2, x3] 1623110400000,
           mosaicByDate [x1, x2, x3] 1623715200000]"
    by (simp add: weeklyMosaics_def col example_two_weeks_listMap)
  have band: "\<And>d. classification_band (mosaicByDate [x1, x2, x3] d) = Some ?c"
    "\<And>d. numbImages (mosaicByDate [x1, x2, x3] d) = 3"
    "\<And>d. system_time_start (mosaicByDate [x1, x2, x3] d) = d"
    by (simp_all add: mosaicByDate_def median_collection_def)
  have c0: "?c 0 = Some 0" using l by (rule median_one_two_zeros)
  have sp: "spec_period_images [x1, x2, x3] 1622505600000 (weekDifference example_two_weeks) = [x1]"
    by (simp add: spec_period_images_def example_two_weeks_listMap t)
  from wm band c0 col sp l(1) show ?thesis by blast
qed


section \<open>The wind mask\<close>

lemma max_band_nonempty: "max_band rs p = Some v \<Longrightarrow> rs \<noteq> []"
  by (auto simp: max_band_def pixel_values_def List.map_filter_simps)

lemma windMask_pixel:
  assumes v: "max_band (map v_component_of_wind_height_above_ground
                 (filterDate (start_date inp) (end_date inp) (NOAA_CFSV2_FOR6H inp))) p = Some v"
    and u: "max_band (map u_component_of_wind_height_above_ground
                 (filterDate (start_date inp) (end_date inp) (NOAA_CFSV2_FOR6H inp))) p = Some u"
  shows "\<exists>im'. windMask inp im = Inr im'
           \<and> classification im' p = (if 12 \<le> sqrt (u\<^sup>2 + v\<^sup>2) * 3.6 then None else classification im p)"
proof -
  from v have ne: "filterDate (start_date inp) (end_date inp) (NOAA_CFSV2_FOR6H inp) \<noteq> []"
    by (auto dest: max_band_nonempty)
  have comm: "v\<^sup>2 + u\<^sup>2 = u\<^sup>2 + v\<^sup>2" by simp
  from ne v u show ?thesis
    by (simp add: windMask_def Let_def updateMask_def lt_def multiply_const_def sqrt_img_def
        add_def lift2_def pow2_def not_less comm)
qed


lemma windMask_collection:
  assumes "max_band (map v_component_of_wind_height_above_ground
                 (filterDate (start_date inp) (end_date inp) (NOAA_CFSV2_FOR6H inp))) p = Some v"
    and "max_band (map u_component_of_wind_height_above_ground
                 (filterDate (start_date inp) (end_date inp) (NOAA_CFSV2_FOR6H inp))) p = Some u"
  shows "\<exists>xs. map_result (windMask inp) (map (smooth inp) cf) = Inr xs \<and> length xs = length cf
            \<and> (\<forall>i < length xs. classification (xs ! i) p =
                  (if 12 \<le> sqrt (u\<^sup>2 + v\<^sup>2) * 3.6 then None
                   else gt (convolve_boxcar inp (classification (cf ! i))) 0.97 p))"
proof -
  have "\<And>x. x \<in> set (map (smooth inp) cf) \<Longrightarrow> \<exists>y. windMask inp x = Inr y"
    using windMask_pixel [OF assms] by blast
  then obtain xs where xs: "map_result (windMask inp) (map (smooth inp) cf) = Inr xs"
    using map_result_succeeds by blast
  then have len: "length xs = length cf"
    and each: "\<forall>i < length cf. windMask inp (smooth inp (cf ! i)) = Inr (xs ! i)"
    by (auto simp: map_result_Inr_iff)
  have "\<forall>i < length xs. classification (xs ! i) p =
          (if 12 \<le> sqrt (u\<^sup>2 + v\<^sup>2) * 3.6 then None
           else gt (convolve_boxcar inp (classification (cf ! i))) 0.97 p)"
  proof (intro allI impI)
    fix i assume "i < length xs"
    with len each have "windMask inp (smooth inp (cf ! i)) = Inr (xs ! i)" by simp
    with windMask_pixel [OF assms, of "smooth inp (cf ! i)"]
    show "classification (xs ! i) p =
          (if 12 \<le> sqrt (u\<^sup>2 + v\<^sup>2) * 3.6 then None
           else gt (convolve_boxcar inp (classification (cf ! i))) 0.97 p)"
      by (auto simp: smooth_def)
  qed
  with xs len show ?thesis by blast
qed

lemma optical_training_without_wind:
  "optical_training (inp \<lparr> NOAA_CFSV2_FOR6H := w \<rparr>) bands t0 t1 = optical_training inp bands t0 t1"
  by (simp add: optical_training_def L8training_def S2training_def points_def waterPoints_def
      dryPoints_def Let_def split: option.splits)

lemma train_optical_without_wind:
  "train_optical (inp \<lparr> NOAA_CFSV2_FOR6H := w \<rparr>) bands t0 t1 = train_optical inp bands t0 t1"
  by (simp add: train_optical_def optical_training_without_wind split: sum.splits)

lemma optical_without_wind:
  "L8S2_classified (inp \<lparr> NOAA_CFSV2_FOR6H := w \<rparr>) = L8S2_classified inp"
  "L8S2_classified_classify (inp \<lparr> NOAA_CFSV2_FOR6H := w \<rparr>) = L8S2_classified_classify inp"
  by (simp_all add: L8S2_classified_def L8S2_ind_def L8S2_def L8_def S2_def optical_classifier_def
      L8S2_classified_classify_def L8S2_classify_def L8_classify_def S2_classify_def
      optical_classifier_classify_def train_optical_without_wind)

text \<open>
  Claim C6. Where the maxima over the query period of the two wind components are \<open>u\<close>
  and \<open>v\<close>, every image of the radar collection of either script has the pixel masked
  when \<open>sqrt (u\<^sup>2 + v\<^sup>2) * 3.6\<close> is at least 12, and has there the value of the smoothed
  classification (the boxcar convolution thresholded at 0.97) otherwise. The optical
  classification does not depend on the wind data.
\<close>

theorem windMask_threshold:
  assumes "max_band (map v_component_of_wind_height_above_ground
                 (filterDate (start_date inp) (end_date inp) (NOAA_CFSV2_FOR6H inp))) p = Some v"
    and "max_band (map u_component_of_wind_height_above_ground
                 (filterDate (start_date inp) (end_date inp) (NOAA_CFSV2_FOR6H inp))) p = Some u"
  shows "(\<exists>xs. S1_classified inp = Inr xs \<and> length xs = length (S1_cf inp)
            \<and> (\<forall>i < length xs. classification (xs ! i) p =
                  (if 12 \<le> sqrt (u\<^sup>2 + v\<^sup>2) * 3.6 then None
                   else gt (convolve_boxcar inp (classification (S1_cf inp ! i))) 0.97 p)))
       \<and> (\<exists>xs. S1_classified_classify inp = Inr xs \<and> length xs = length (S1_cf_classify inp)
            \<and> (\<forall>i < length xs. classification (xs ! i) p =
                  (if 12 \<le> sqrt (u\<^sup>2 + v\<^sup>2) * 3.6 then None
                   else gt (convolve_boxcar inp (classification (S1_cf_classify inp ! i))) 0.97 p)))
       \<and> L8S2_classified (inp \<lparr> NOAA_CFSV2_FOR6H := w \<rparr>) = L8S2_classified inp
       \<and> L8S2_classified_classify (inp \<lparr> NOAA_CFSV2_FOR6H := w \<rparr>) = L8S2_classified_classify inp"
  unfolding S1_classified_def S1_classified_classify_def
  using windMask_collection [OF assms] optical_without_wind [where inp = inp and w = w]
  by (intro conjI)

lemma sqrt_3_4: "sqrt (3\<^sup>2 + 4\<^sup>2) = (5 :: real)"
  by (rule real_sqrt_unique) simp_all

lemma example_windy_fields:
  "start_date example_windy = 1622332800000" "end_date example_windy = 1622764800000"
  "NOAA_CFSV2_FOR6H example_windy = [example_wind_scene 1622505600000 3 4]"
  "convolve_boxcar example_windy = (\<lambda>r. r)"
  "s1_preproc example_windy = (\<lambda>prm. [example_radar_scene (START_DATE prm)])"
  by (simp_all add: example_windy_def example_query_fields example_dates)

lemma example_windy_max:
  "max_band (map v_component_of_wind_height_above_ground
      (filterDate (start_date example_windy) (end_date example_windy)
         (NOAA_CFSV2_FOR6H example_windy))) 0 = Some 4"
  "max_band (map u_component_of_wind_height_above_ground
      (filterDate (start_date example_windy) (end_date example_windy)
         (NOAA_CFSV2_FOR6H example_windy))) 0 = Some 3"
  by (simp_all add: example_windy_fields filterDate_def example_wind_scene_def max_band_def
      pixel_values_def List.map_filter_simps constant_img_def)

lemma example_windy_S1_cf: "length (S1_cf example_windy) = 1"
  by (simp add: S1_cf_def S1_preprocess_def example_windy_fields)

lemma windy: "(12 :: real) \<le> sqrt (3\<^sup>2 + 4\<^sup>2) * 3.6"
  unfolding sqrt_3_4 by simp


theorem windMask_threshold_witness:
  "max_band (map v_component_of_wind_height_above_ground
      (filterDate (start_date example_windy) (end_date example_windy)
         (NOAA_CFSV2_FOR6H example_windy))) 0 = Some 4
   \<and> max_band (map u_component_of_wind_height_above_ground
      (filterDate (start_date example_windy) (end_date example_windy)
         (NOAA_CFSV2_FOR6H example_windy))) 0 = Some 3
   \<and> (12 :: real) \<le> sqrt (3\<^sup>2 + 4\<^sup>2) * 3.6
   \<and> (\<exists>x. S1_classified example_windy = Inr [x] \<and> classification x 0 = None)"
proof -
  from windMask_threshold [OF example_windy_max, of "[]"]
  obtain xs where xs: "S1_classified example_windy = Inr xs" "length xs = length (S1_cf example_windy)"
    "\<forall>i < length xs. classification (xs ! i) 0 =
        (if 12 \<le> sqrt (3\<^sup>2 + 4\<^sup>2) * 3.6 then None
         else gt (convolve_boxcar example_windy (classification (S1_cf example_windy ! i))) 0.97 0)"
    by blast
  from xs(2) obtain x where x: "xs = [x]" by (auto simp: example_windy_S1_cf dest: length_one)
  with xs(3) windy have "classification x 0 = None" by simp
  with xs(1) x example_windy_max windy show ?thesis by blast
qed


section \<open>The discarded wind mask of the accuracy script\<close>







end
